theory Spec2Isabelle
  imports Complex_Main "HOL-Library.AList"
begin

section \<open>Workflow graphs as the tracking module builds them\<close>

text \<open>
  The functions \<^verbatim>\<open>create_*_tracking_flow\<close> of \<^verbatim>\<open>cmp/stages/diffusion/tracking.py\<close>
  create node objects (\<^verbatim>\<open>pe.Node(interface=..., name=...)\<close>), assign to their
  \<^verbatim>\<open>inputs\<close> and call \<^verbatim>\<open>flow.connect\<close>. The node objects are shared by reference
  between the local variables and the workflow, so the model keeps an explicit store of
  the objects created so far and lets every statement update it. A node belongs to the
  workflow only once it appears in a \<^verbatim>\<open>connect\<close> call.
\<close>

datatype pval = PStr string | PInt int | PFloat real | PBool bool

datatype iface =
    IdentityInterface "string list"
  | TensorInformedEudXTractography
  | DirectionGetterTractography
  | Make_seeds
  | Make_mrtrix_seeds
  | Erode
  | StreamlineTrack
  | Tck2Trk
  | ExtractHeaderVoxel2WorldMatrix
  | Match_orientations

record node =
  node_name :: string
  node_interface :: iface
  node_inputs :: "(string \<times> pval) list"

record edge =
  src :: string
  src_port :: string
  dst :: string
  dst_port :: string

record workflow =
  objs :: "node list"
  flow_nodes :: "string list"
  flow_edges :: "edge list"

text \<open>
  One statement of a flow-building function: the creation of a node with the keyword
  arguments of its interface, an assignment \<^verbatim>\<open>n.inputs.k = v\<close>, and one
  \<^verbatim>\<open>(src, dst, [(src_port, dst_port)])\<close> entry of a \<^verbatim>\<open>flow.connect\<close> list.
\<close>

datatype stmt =
    Node string iface "(string \<times> pval) list"
  | SetInput string string pval
  | Connect string string string string

definition add_node :: "string \<Rightarrow> string list \<Rightarrow> string list" where
  "add_node n ns = (if n \<in> set ns then ns else ns @ [n])"

fun exec :: "workflow \<Rightarrow> stmt \<Rightarrow> workflow" where
  "exec w (Node n i kw) =
     w\<lparr>objs := objs w @ [\<lparr>node_name = n, node_interface = i, node_inputs = kw\<rparr>]\<rparr>"
| "exec w (SetInput n k v) =
     w\<lparr>objs := map (\<lambda>ob. if node_name ob = n
                          then ob\<lparr>node_inputs := AList.update k v (node_inputs ob)\<rparr>
                          else ob) (objs w)\<rparr>"
| "exec w (Connect a p b q) =
     w\<lparr>flow_nodes := add_node b (add_node a (flow_nodes w)),
       flow_edges := flow_edges w @ [\<lparr>src = a, src_port = p, dst = b, dst_port = q\<rparr>]\<rparr>"

definition Workflow :: workflow where
  "Workflow = \<lparr>objs = [], flow_nodes = [], flow_edges = []\<rparr>"

definition build :: "stmt list \<Rightarrow> workflow" where
  "build ss = foldl exec Workflow ss"

text \<open>The stages of a workflow: the node objects that some connection mentions.\<close>

definition stages :: "workflow \<Rightarrow> node list" where
  "stages w = filter (\<lambda>ob. node_name ob \<in> set (flow_nodes w)) (objs w)"

definition stages_of :: "workflow \<Rightarrow> iface \<Rightarrow> node list" where
  "stages_of w i = filter (\<lambda>ob. node_interface ob = i) (stages w)"

definition param :: "node \<Rightarrow> string \<Rightarrow> pval option" where
  "param ob k = map_of (node_inputs ob) k"

definition is_tracking :: "iface \<Rightarrow> bool" where
  "is_tracking i \<longleftrightarrow>
     i = TensorInformedEudXTractography \<or> i = DirectionGetterTractography \<or> i = StreamlineTrack"

definition edges_into :: "workflow \<Rightarrow> string \<Rightarrow> edge list" where
  "edges_into w n = filter (\<lambda>e. dst e = n) (flow_edges w)"

definition edges_from :: "workflow \<Rightarrow> string \<Rightarrow> edge list" where
  "edges_from w n = filter (\<lambda>e. src e = n) (flow_edges w)"

definition edge_rel :: "workflow \<Rightarrow> (string \<times> string) set" where
  "edge_rel w = (\<lambda>e. (src e, dst e)) ` set (flow_edges w)"

section \<open>The Dipy (tensor / CSD) backend\<close>

record Dipy_tracking_config =
  imaging_model :: string
  tracking_mode :: string
  SD :: bool
  number_of_seeds :: int
  fa_thresh :: real
  step_size :: real
  max_angle :: real
  sh_order :: int
  use_act :: bool
  fast_number_of_classes :: int

definition dipy_inputnode :: stmt where
  "dipy_inputnode = Node ''inputnode''
     (IdentityInterface [''DWI'', ''fod_file'', ''FA'', ''T1'', ''partial_volumes'',
        ''wm_mask_resampled'', ''gm_registered'', ''bvals'', ''bvecs'', ''model'']) []"

definition outputnode :: stmt where
  "outputnode = Node ''outputnode'' (IdentityInterface [''track_file'']) []"

text \<open>The branch \<^verbatim>\<open>if not config.SD and config.imaging_model != 'DSI'\<close>.\<close>

definition dipy_tensor_branch :: "Dipy_tracking_config \<Rightarrow> stmt list" where
  "dipy_tensor_branch config =
     (let dipy_tracking = ''dipy_dtieudx_tracking'' in
      [Node dipy_tracking TensorInformedEudXTractography [],
       SetInput dipy_tracking ''num_seeds'' (PInt (Dipy_tracking_config.number_of_seeds config)),
       SetInput dipy_tracking ''fa_thresh'' (PFloat (Dipy_tracking_config.fa_thresh config)),
       SetInput dipy_tracking ''max_angle'' (PFloat (Dipy_tracking_config.max_angle config)),
       SetInput dipy_tracking ''step_size'' (PFloat (Dipy_tracking_config.step_size config)),
       Connect ''inputnode'' ''wm_mask_resampled'' dipy_tracking ''seed_mask'',
       Connect ''inputnode'' ''DWI'' dipy_tracking ''in_file'',
       Connect ''inputnode'' ''model'' dipy_tracking ''in_model'',
       Connect ''inputnode'' ''FA'' dipy_tracking ''in_fa'',
       Connect ''inputnode'' ''wm_mask_resampled'' dipy_tracking ''tracking_mask'',
       Connect dipy_tracking ''tracks'' ''outputnode'' ''track_file''])"

text \<open>
  The parameters both direction-getter branches set, and the choice of the
  reconstruction model.
\<close>

definition dipy_getter_inputs :: "Dipy_tracking_config \<Rightarrow> string \<Rightarrow> string \<Rightarrow> stmt list" where
  "dipy_getter_inputs config dipy_tracking algo =
     [SetInput dipy_tracking ''algo'' (PStr algo),
      SetInput dipy_tracking ''num_seeds'' (PInt (Dipy_tracking_config.number_of_seeds config)),
      SetInput dipy_tracking ''fa_thresh'' (PFloat (Dipy_tracking_config.fa_thresh config)),
      SetInput dipy_tracking ''max_angle'' (PFloat (Dipy_tracking_config.max_angle config)),
      SetInput dipy_tracking ''step_size'' (PFloat (Dipy_tracking_config.step_size config)),
      SetInput dipy_tracking ''use_act'' (PBool (Dipy_tracking_config.use_act config)),
      SetInput dipy_tracking ''fast_number_of_classes''
        (PInt (Dipy_tracking_config.fast_number_of_classes config))] @
     (if Dipy_tracking_config.imaging_model config = ''DSI''
      then [SetInput dipy_tracking ''recon_model'' (PStr ''SHORE'')]
      else [SetInput dipy_tracking ''recon_model'' (PStr ''CSD''),
            SetInput dipy_tracking ''recon_order'' (PInt (Dipy_tracking_config.sh_order config))])"

definition dipy_seeds_connections :: "stmt list" where
  "dipy_seeds_connections =
     [Connect ''inputnode'' ''wm_mask_resampled'' ''dipy_seeds'' ''WM_file'',
      Connect ''inputnode'' ''gm_registered'' ''dipy_seeds'' ''ROI_files'']"

definition dipy_getter_connections :: "Dipy_tracking_config \<Rightarrow> string \<Rightarrow> stmt list" where
  "dipy_getter_connections config dipy_tracking =
     (if Dipy_tracking_config.imaging_model config = ''DSI''
      then [Connect ''inputnode'' ''fod_file'' dipy_tracking ''fod_file'']
      else []) @
     [Connect ''inputnode'' ''wm_mask_resampled'' dipy_tracking ''seed_mask'',
      Connect ''inputnode'' ''DWI'' dipy_tracking ''in_file'',
      Connect ''inputnode'' ''partial_volumes'' dipy_tracking ''in_partial_volume_files'',
      Connect ''inputnode'' ''model'' dipy_tracking ''in_model'',
      Connect ''inputnode'' ''FA'' dipy_tracking ''in_fa'',
      Connect ''inputnode'' ''wm_mask_resampled'' dipy_tracking ''tracking_mask'',
      Connect dipy_tracking ''tracks'' ''outputnode'' ''track_file'']"

text \<open>The branch \<^verbatim>\<open>if config.tracking_mode == 'Deterministic'\<close> of the CSD path.\<close>

definition dipy_deterministic_branch :: "Dipy_tracking_config \<Rightarrow> stmt list" where
  "dipy_deterministic_branch config =
     (let dipy_tracking = ''dipy_deterministic_tracking'' in
      [Node ''dipy_seeds'' Make_seeds [],
       Node dipy_tracking DirectionGetterTractography []] @
      dipy_getter_inputs config dipy_tracking ''deterministic'' @
      dipy_seeds_connections @
      dipy_getter_connections config dipy_tracking)"

text \<open>The branch \<^verbatim>\<open>elif config.tracking_mode == 'Probabilistic'\<close>.\<close>

definition dipy_probabilistic_branch :: "Dipy_tracking_config \<Rightarrow> stmt list" where
  "dipy_probabilistic_branch config =
     (let dipy_tracking = ''dipy_probabilistic_tracking'' in
      [Node ''dipy_seeds'' Make_seeds []] @
      dipy_seeds_connections @
      [Node dipy_tracking DirectionGetterTractography []] @
      dipy_getter_inputs config dipy_tracking ''probabilistic'' @
      dipy_getter_connections config dipy_tracking)"

definition dipy_statements :: "Dipy_tracking_config \<Rightarrow> stmt list" where
  "dipy_statements config =
     [dipy_inputnode, outputnode] @
     (if \<not> Dipy_tracking_config.SD config \<and> Dipy_tracking_config.imaging_model config \<noteq> ''DSI''
      then dipy_tensor_branch config
      else if Dipy_tracking_config.tracking_mode config = ''Deterministic''
      then dipy_deterministic_branch config
      else if Dipy_tracking_config.tracking_mode config = ''Probabilistic''
      then dipy_probabilistic_branch config
      else [])"

definition create_dipy_tracking_flow :: "Dipy_tracking_config \<Rightarrow> workflow" where
  "create_dipy_tracking_flow config = build (dipy_statements config)"


section \<open>Reading a built workflow off its statements\<close>

fun stmt_edges :: "stmt \<Rightarrow> edge list" where
  "stmt_edges (Connect a p b q) = [\<lparr>src = a, src_port = p, dst = b, dst_port = q\<rparr>]"
| "stmt_edges _ = []"

fun obj_step :: "node list \<Rightarrow> stmt \<Rightarrow> node list" where
  "obj_step os (Node n i kw) = os @ [\<lparr>node_name = n, node_interface = i, node_inputs = kw\<rparr>]"
| "obj_step os (SetInput n k v) =
     map (\<lambda>ob. if node_name ob = n
                then ob\<lparr>node_inputs := AList.update k v (node_inputs ob)\<rparr>
                else ob) os"
| "obj_step os (Connect a p b q) = os"

fun node_step :: "string list \<Rightarrow> stmt \<Rightarrow> string list" where
  "node_step ns (Connect a p b q) = add_node b (add_node a ns)"
| "node_step ns _ = ns"

lemma flow_edges_foldl:
  "flow_edges (foldl exec w ss) = flow_edges w @ concat (map stmt_edges ss)"
proof (induction ss arbitrary: w)
  case Nil
  show ?case by simp
next
  case (Cons s ss)
  show ?case by (cases s) (simp_all add: Cons.IH)
qed

lemma objs_foldl: "objs (foldl exec w ss) = foldl obj_step (objs w) ss"
proof (induction ss arbitrary: w)
  case Nil
  show ?case by simp
next
  case (Cons s ss)
  show ?case by (cases s) (simp_all add: Cons.IH)
qed

lemma flow_nodes_foldl: "flow_nodes (foldl exec w ss) = foldl node_step (flow_nodes w) ss"
proof (induction ss arbitrary: w)
  case Nil
  show ?case by simp
next
  case (Cons s ss)
  show ?case by (cases s) (simp_all add: Cons.IH)
qed

lemma flow_edges_build: "flow_edges (build ss) = concat (map stmt_edges ss)"
  by (simp add: build_def flow_edges_foldl Workflow_def)

lemma objs_build: "objs (build ss) = foldl obj_step [] ss"
  by (simp add: build_def objs_foldl Workflow_def)

lemma flow_nodes_build: "flow_nodes (build ss) = foldl node_step [] ss"
  by (simp add: build_def flow_nodes_foldl Workflow_def)

text \<open>A node with no outgoing edge is the start of no path.\<close>

lemma no_path_from_sink:
  assumes "edges_from w a = []"
  shows "(a, b) \<notin> (edge_rel w)\<^sup>+"
proof
  assume "(a, b) \<in> (edge_rel w)\<^sup>+"
  then obtain z where "(a, z) \<in> edge_rel w"
    by (auto dest: tranclD)
  then obtain e where "e \<in> set (flow_edges w)" and "src e = a"
    by (auto simp: edge_rel_def)
  then have "e \<in> set (edges_from w a)"
    by (simp add: edges_from_def)
  with assms show False by simp
qed

section \<open>The Dipy workflow, branch by branch\<close>

lemmas dipy_defs = dipy_statements_def dipy_inputnode_def outputnode_def
  dipy_tensor_branch_def dipy_deterministic_branch_def dipy_probabilistic_branch_def
  dipy_getter_inputs_def dipy_seeds_connections_def dipy_getter_connections_def Let_def

definition dipy_inputnode_obj :: node where
  "dipy_inputnode_obj = \<lparr>node_name = ''inputnode'',
     node_interface = IdentityInterface [''DWI'', ''fod_file'', ''FA'', ''T1'',
       ''partial_volumes'', ''wm_mask_resampled'', ''gm_registered'', ''bvals'', ''bvecs'',
       ''model''],
     node_inputs = []\<rparr>"

definition outputnode_obj :: node where
  "outputnode_obj = \<lparr>node_name = ''outputnode'',
     node_interface = IdentityInterface [''track_file''], node_inputs = []\<rparr>"

definition dipy_seeds_obj :: node where
  "dipy_seeds_obj = \<lparr>node_name = ''dipy_seeds'', node_interface = Make_seeds,
     node_inputs = []\<rparr>"

definition dipy_tensor_obj :: "Dipy_tracking_config \<Rightarrow> node" where
  "dipy_tensor_obj c = \<lparr>node_name = ''dipy_dtieudx_tracking'',
     node_interface = TensorInformedEudXTractography,
     node_inputs =
       [(''num_seeds'', PInt (Dipy_tracking_config.number_of_seeds c)),
        (''fa_thresh'', PFloat (Dipy_tracking_config.fa_thresh c)),
        (''max_angle'', PFloat (Dipy_tracking_config.max_angle c)),
        (''step_size'', PFloat (Dipy_tracking_config.step_size c))]\<rparr>"

definition dipy_getter_obj :: "Dipy_tracking_config \<Rightarrow> string \<Rightarrow> string \<Rightarrow> node" where
  "dipy_getter_obj c name algo = \<lparr>node_name = name,
     node_interface = DirectionGetterTractography,
     node_inputs =
       [(''algo'', PStr algo),
        (''num_seeds'', PInt (Dipy_tracking_config.number_of_seeds c)),
        (''fa_thresh'', PFloat (Dipy_tracking_config.fa_thresh c)),
        (''max_angle'', PFloat (Dipy_tracking_config.max_angle c)),
        (''step_size'', PFloat (Dipy_tracking_config.step_size c)),
        (''use_act'', PBool (Dipy_tracking_config.use_act c)),
        (''fast_number_of_classes'', PInt (Dipy_tracking_config.fast_number_of_classes c))] @
       (if Dipy_tracking_config.imaging_model c = ''DSI''
        then [(''recon_model'', PStr ''SHORE'')]
        else [(''recon_model'', PStr ''CSD''),
              (''recon_order'', PInt (Dipy_tracking_config.sh_order c))])\<rparr>"

lemmas dipy_obj_defs = dipy_inputnode_obj_def outputnode_obj_def dipy_seeds_obj_def
  dipy_tensor_obj_def dipy_getter_obj_def

lemma dipy_tensor_stages:
  assumes "\<not> Dipy_tracking_config.SD c"
    and "Dipy_tracking_config.imaging_model c \<noteq> ''DSI''"
  shows "stages (create_dipy_tracking_flow c) =
     [dipy_inputnode_obj, outputnode_obj, dipy_tensor_obj c]"
proof -
  have ns: "flow_nodes (create_dipy_tracking_flow c) =
      [''inputnode'', ''dipy_dtieudx_tracking'', ''outputnode'']"
    using assms
    by (simp add: create_dipy_tracking_flow_def flow_nodes_build dipy_defs add_node_def)
  have os: "objs (create_dipy_tracking_flow c) =
      [dipy_inputnode_obj, outputnode_obj, dipy_tensor_obj c]"
    using assms
    by (simp add: create_dipy_tracking_flow_def objs_build dipy_defs dipy_obj_defs)
  show ?thesis
    unfolding stages_def ns os by (simp add: dipy_obj_defs)
qed

lemma dipy_tensor_edges_into:
  assumes "\<not> Dipy_tracking_config.SD c"
    and "Dipy_tracking_config.imaging_model c \<noteq> ''DSI''"
  shows "edges_into (create_dipy_tracking_flow c) ''dipy_dtieudx_tracking'' =
     [\<lparr>src = ''inputnode'', src_port = ''wm_mask_resampled'',
        dst = ''dipy_dtieudx_tracking'', dst_port = ''seed_mask''\<rparr>,
      \<lparr>src = ''inputnode'', src_port = ''DWI'',
        dst = ''dipy_dtieudx_tracking'', dst_port = ''in_file''\<rparr>,
      \<lparr>src = ''inputnode'', src_port = ''model'',
        dst = ''dipy_dtieudx_tracking'', dst_port = ''in_model''\<rparr>,
      \<lparr>src = ''inputnode'', src_port = ''FA'',
        dst = ''dipy_dtieudx_tracking'', dst_port = ''in_fa''\<rparr>,
      \<lparr>src = ''inputnode'', src_port = ''wm_mask_resampled'',
        dst = ''dipy_dtieudx_tracking'', dst_port = ''tracking_mask''\<rparr>]"
  using assms
  by (simp add: edges_into_def create_dipy_tracking_flow_def flow_edges_build dipy_defs)

lemma dipy_deterministic_stages:
  assumes "Dipy_tracking_config.SD c \<or> Dipy_tracking_config.imaging_model c = ''DSI''"
    and "Dipy_tracking_config.tracking_mode c = ''Deterministic''"
  shows "stages (create_dipy_tracking_flow c) =
     [dipy_inputnode_obj, outputnode_obj, dipy_seeds_obj,
      dipy_getter_obj c ''dipy_deterministic_tracking'' ''deterministic'']"
proof -
  have ns: "flow_nodes (create_dipy_tracking_flow c) =
      [''inputnode'', ''dipy_seeds'', ''dipy_deterministic_tracking'', ''outputnode'']"
  proof (cases "Dipy_tracking_config.imaging_model c = ''DSI''")
    case True
    with assms show ?thesis
      by (simp add: create_dipy_tracking_flow_def flow_nodes_build dipy_defs add_node_def)
  next
    case False
    with assms show ?thesis
      by (simp add: create_dipy_tracking_flow_def flow_nodes_build dipy_defs add_node_def)
  qed
  have os: "objs (create_dipy_tracking_flow c) =
      [dipy_inputnode_obj, outputnode_obj, dipy_seeds_obj,
       dipy_getter_obj c ''dipy_deterministic_tracking'' ''deterministic'']"
    using assms
    by (simp add: create_dipy_tracking_flow_def objs_build dipy_defs dipy_obj_defs)
  show ?thesis
    unfolding stages_def ns os by (simp add: dipy_obj_defs)
qed

lemma dipy_probabilistic_stages:
  assumes "Dipy_tracking_config.SD c \<or> Dipy_tracking_config.imaging_model c = ''DSI''"
    and "Dipy_tracking_config.tracking_mode c = ''Probabilistic''"
  shows "stages (create_dipy_tracking_flow c) =
     [dipy_inputnode_obj, outputnode_obj, dipy_seeds_obj,
      dipy_getter_obj c ''dipy_probabilistic_tracking'' ''probabilistic'']"
proof -
  have ns: "flow_nodes (create_dipy_tracking_flow c) =
      [''inputnode'', ''dipy_seeds'', ''dipy_probabilistic_tracking'', ''outputnode'']"
  proof (cases "Dipy_tracking_config.imaging_model c = ''DSI''")
    case True
    with assms show ?thesis
      by (simp add: create_dipy_tracking_flow_def flow_nodes_build dipy_defs add_node_def)
  next
    case False
    with assms show ?thesis
      by (simp add: create_dipy_tracking_flow_def flow_nodes_build dipy_defs add_node_def)
  qed
  have os: "objs (create_dipy_tracking_flow c) =
      [dipy_inputnode_obj, outputnode_obj, dipy_seeds_obj,
       dipy_getter_obj c ''dipy_probabilistic_tracking'' ''probabilistic'']"
    using assms
    by (simp add: create_dipy_tracking_flow_def objs_build dipy_defs dipy_obj_defs)
  show ?thesis
    unfolding stages_def ns os by (simp add: dipy_obj_defs)
qed

lemma dipy_getter_obj_params:
  "param (dipy_getter_obj c name algo) ''algo'' = Some (PStr algo)"
  "param (dipy_getter_obj c name algo) ''recon_model'' =
     Some (PStr (if Dipy_tracking_config.imaging_model c = ''DSI'' then ''SHORE'' else ''CSD''))"
  "Dipy_tracking_config.imaging_model c \<noteq> ''DSI'' \<Longrightarrow>
     param (dipy_getter_obj c name algo) ''recon_order'' =
       Some (PInt (Dipy_tracking_config.sh_order c))"
  by (simp_all add: param_def dipy_getter_obj_def)

text \<open>
  With a tracking mode that is neither of the two strings the CSD path connects nothing,
  so the workflow has no stage at all.
\<close>

lemma dipy_other_mode_stages:
  assumes "Dipy_tracking_config.SD c \<or> Dipy_tracking_config.imaging_model c = ''DSI''"
    and "Dipy_tracking_config.tracking_mode c \<noteq> ''Deterministic''"
    and "Dipy_tracking_config.tracking_mode c \<noteq> ''Probabilistic''"
  shows "stages (create_dipy_tracking_flow c) = []"
proof -
  have ns: "flow_nodes (create_dipy_tracking_flow c) = []"
    using assms
    by (simp add: create_dipy_tracking_flow_def flow_nodes_build dipy_defs add_node_def)
  show ?thesis
    unfolding stages_def ns by simp
qed


section \<open>Dispatch of the Dipy workflow\<close>

definition tracking_stages :: "workflow \<Rightarrow> node list" where
  "tracking_stages w = filter (\<lambda>ob. is_tracking (node_interface ob)) (stages w)"

definition Dipy_config_example :: "string \<Rightarrow> string \<Rightarrow> bool \<Rightarrow> Dipy_tracking_config" where
  "Dipy_config_example im tm sd =
     \<lparr>imaging_model = im, tracking_mode = tm, SD = sd, number_of_seeds = 1000,
      fa_thresh = 0.2, step_size = 0.5, max_angle = 25, sh_order = 8, use_act = False,
      fast_number_of_classes = 3\<rparr>"

text \<open>
  Claim C1. \<^verbatim>\<open>create_dipy_tracking_flow\<close> dispatches on \<^verbatim>\<open>SD\<close> and the imaging model.
  Without spherical deconvolution and with an imaging model other than DSI, the workflow
  has no \<^verbatim>\<open>make_seeds\<close> stage and exactly one tracking stage, the tensor-informed one,
  all of whose inputs come from \<^verbatim>\<open>inputnode\<close>. Otherwise, for the tracking modes
  Deterministic and Probabilistic, it has a \<^verbatim>\<open>make_seeds\<close> stage and one direction-getter
  stage whose \<^verbatim>\<open>recon_model\<close> is SHORE for DSI and CSD (with \<^verbatim>\<open>recon_order\<close> the
  configured \<^verbatim>\<open>sh_order\<close>) otherwise, and whose \<^verbatim>\<open>algo\<close> is \<^verbatim>\<open>deterministic\<close> or
  \<^verbatim>\<open>probabilistic\<close> after the tracking mode.
\<close>

theorem dipy_flow_dispatch:
  fixes c :: Dipy_tracking_config
  defines "g \<equiv> create_dipy_tracking_flow c"
  defines "dsi \<equiv> Dipy_tracking_config.imaging_model c = ''DSI''"
  defines "mode \<equiv> Dipy_tracking_config.tracking_mode c"
  shows "(\<not> Dipy_tracking_config.SD c \<and> \<not> dsi \<longrightarrow>
            stages_of g Make_seeds = [] \<and>
            length (tracking_stages g) = 1 \<and>
            (\<exists>t. tracking_stages g = [t] \<and>
                 node_interface t = TensorInformedEudXTractography \<and>
                 edges_into g (node_name t) \<noteq> [] \<and>
                 (\<forall>e \<in> set (edges_into g (node_name t)). src e = ''inputnode''))) \<and>
         ((Dipy_tracking_config.SD c \<or> dsi) \<and>
          (mode = ''Deterministic'' \<or> mode = ''Probabilistic'') \<longrightarrow>
            length (stages_of g Make_seeds) = 1 \<and>
            (\<exists>t. tracking_stages g = [t] \<and>
                 node_interface t = DirectionGetterTractography \<and>
                 param t ''recon_model'' = Some (PStr (if dsi then ''SHORE'' else ''CSD'')) \<and>
                 (\<not> dsi \<longrightarrow>
                    param t ''recon_order'' = Some (PInt (Dipy_tracking_config.sh_order c))) \<and>
                 (mode = ''Deterministic'' \<longrightarrow> param t ''algo'' = Some (PStr ''deterministic'')) \<and>
                 (mode = ''Probabilistic'' \<longrightarrow> param t ''algo'' = Some (PStr ''probabilistic''))))"
proof (intro conjI impI)
  assume a: "\<not> Dipy_tracking_config.SD c \<and> \<not> dsi"
  then have st: "stages g = [dipy_inputnode_obj, outputnode_obj, dipy_tensor_obj c]"
    unfolding g_def dsi_def by (simp add: dipy_tensor_stages)
  have ts: "tracking_stages g = [dipy_tensor_obj c]"
    unfolding tracking_stages_def st by (simp add: dipy_obj_defs is_tracking_def)
  show "stages_of g Make_seeds = []"
    unfolding stages_of_def st by (simp add: dipy_obj_defs)
  show "length (tracking_stages g) = 1"
    unfolding ts by simp
  have nm: "node_name (dipy_tensor_obj c) = ''dipy_dtieudx_tracking''"
    by (simp add: dipy_tensor_obj_def)
  have ei: "edges_into g (node_name (dipy_tensor_obj c)) \<noteq> [] \<and>
      (\<forall>e \<in> set (edges_into g (node_name (dipy_tensor_obj c))). src e = ''inputnode'')"
    using a unfolding nm g_def dsi_def by (simp add: dipy_tensor_edges_into)
  have "node_interface (dipy_tensor_obj c) = TensorInformedEudXTractography"
    by (simp add: dipy_tensor_obj_def)
  with ts ei
  show "\<exists>t. tracking_stages g = [t] \<and>
          node_interface t = TensorInformedEudXTractography \<and>
          edges_into g (node_name t) \<noteq> [] \<and>
          (\<forall>e \<in> set (edges_into g (node_name t)). src e = ''inputnode'')"
    by blast
next
  assume a: "(Dipy_tracking_config.SD c \<or> dsi) \<and>
      (mode = ''Deterministic'' \<or> mode = ''Probabilistic'')"
  define name where
    "name = (if mode = ''Deterministic'' then ''dipy_deterministic_tracking''
             else ''dipy_probabilistic_tracking'')"
  define algo where
    "algo = (if mode = ''Deterministic'' then ''deterministic'' else ''probabilistic'')"
  have st: "stages g =
      [dipy_inputnode_obj, outputnode_obj, dipy_seeds_obj, dipy_getter_obj c name algo]"
  proof (cases "mode = ''Deterministic''")
    case True
    with a show ?thesis
      unfolding g_def dsi_def mode_def name_def algo_def
      by (simp add: dipy_deterministic_stages)
  next
    case False
    with a have "mode = ''Probabilistic''" by simp
    with a False show ?thesis
      unfolding g_def dsi_def mode_def name_def algo_def
      by (simp add: dipy_probabilistic_stages)
  qed
  have ts: "tracking_stages g = [dipy_getter_obj c name algo]"
    unfolding tracking_stages_def st by (simp add: dipy_obj_defs is_tracking_def)
  show "length (stages_of g Make_seeds) = 1"
    unfolding stages_of_def st by (simp add: dipy_obj_defs)
  have algo_det: "mode = ''Deterministic'' \<longrightarrow> algo = ''deterministic''"
    and algo_prob: "mode = ''Probabilistic'' \<longrightarrow> algo = ''probabilistic''"
    by (simp_all add: algo_def)
  have "node_interface (dipy_getter_obj c name algo) = DirectionGetterTractography"
    by (simp add: dipy_getter_obj_def)
  moreover have "param (dipy_getter_obj c name algo) ''recon_model'' =
      Some (PStr (if dsi then ''SHORE'' else ''CSD''))"
    unfolding dsi_def by (rule dipy_getter_obj_params(2))
  moreover have "\<not> dsi \<longrightarrow> param (dipy_getter_obj c name algo) ''recon_order'' =
      Some (PInt (Dipy_tracking_config.sh_order c))"
    unfolding dsi_def by (simp add: dipy_getter_obj_params(3))
  moreover have "mode = ''Deterministic'' \<longrightarrow>
      param (dipy_getter_obj c name algo) ''algo'' = Some (PStr ''deterministic'')"
    using algo_det by (simp add: dipy_getter_obj_params(1))
  moreover have "mode = ''Probabilistic'' \<longrightarrow>
      param (dipy_getter_obj c name algo) ''algo'' = Some (PStr ''probabilistic'')"
    using algo_prob by (simp add: dipy_getter_obj_params(1))
  ultimately
  show "\<exists>t. tracking_stages g = [t] \<and>
          node_interface t = DirectionGetterTractography \<and>
          param t ''recon_model'' = Some (PStr (if dsi then ''SHORE'' else ''CSD'')) \<and>
          (\<not> dsi \<longrightarrow>
             param t ''recon_order'' = Some (PInt (Dipy_tracking_config.sh_order c))) \<and>
          (mode = ''Deterministic'' \<longrightarrow> param t ''algo'' = Some (PStr ''deterministic'')) \<and>
          (mode = ''Probabilistic'' \<longrightarrow> param t ''algo'' = Some (PStr ''probabilistic''))"
    using ts by blast
qed

theorem dipy_flow_dispatch_witness:
  "(\<not> Dipy_tracking_config.SD (Dipy_config_example ''DTI'' ''Deterministic'' False) \<and>
    stages_of (create_dipy_tracking_flow (Dipy_config_example ''DTI'' ''Deterministic'' False))
      Make_seeds = [] \<and>
    length (tracking_stages
      (create_dipy_tracking_flow (Dipy_config_example ''DTI'' ''Deterministic'' False))) = 1) \<and>
   (Dipy_tracking_config.SD (Dipy_config_example ''DTI'' ''Probabilistic'' True) \<and>
    length (stages_of (create_dipy_tracking_flow (Dipy_config_example ''DTI'' ''Probabilistic'' True))
      Make_seeds) = 1 \<and>
    (\<exists>t. tracking_stages
           (create_dipy_tracking_flow (Dipy_config_example ''DTI'' ''Probabilistic'' True)) = [t] \<and>
         node_interface t = DirectionGetterTractography \<and>
         param t ''recon_model'' = Some (PStr ''CSD'') \<and>
         param t ''recon_order'' = Some (PInt 8) \<and>
         param t ''algo'' = Some (PStr ''probabilistic''))) \<and>
   (\<exists>t. tracking_stages
          (create_dipy_tracking_flow (Dipy_config_example ''DSI'' ''Deterministic'' False)) = [t] \<and>
        node_interface t = DirectionGetterTractography \<and>
        param t ''recon_model'' = Some (PStr ''SHORE'') \<and>
        param t ''algo'' = Some (PStr ''deterministic''))"
  using dipy_flow_dispatch [of "Dipy_config_example ''DTI'' ''Deterministic'' False"]
    dipy_flow_dispatch [of "Dipy_config_example ''DTI'' ''Probabilistic'' True"]
    dipy_flow_dispatch [of "Dipy_config_example ''DSI'' ''Deterministic'' False"]
  by (simp add: Dipy_config_example_def)

section \<open>The MRtrix backend: its configuration object\<close>

text \<open>
  \<^verbatim>\<open>MRtrix_tracking_config\<close> is a \<^verbatim>\<open>HasTraits\<close> class. Its fields are typed traits with
  defaults; \<^verbatim>\<open>tracking_mode = Str\<close> and \<^verbatim>\<open>SD = Bool\<close> default to the empty string and
  to \<^verbatim>\<open>False\<close>. Floats are read as the real numbers they denote.
\<close>

record MRtrix_tracking_config =
  tracking_mode :: string
  SD :: bool
  desired_number_of_tracks :: int
  curvature :: real
  step_size :: real
  min_length :: real
  max_length :: real
  angle :: real
  cutoff_value :: real
  use_act :: bool
  seed_from_gmwmi :: bool
  crop_at_gmwmi :: bool
  backtrack :: bool

definition MRtrix_defaults :: MRtrix_tracking_config where
  "MRtrix_defaults =
     \<lparr>tracking_mode = '''', SD = False, desired_number_of_tracks = 1000000,
      curvature = 2.0, step_size = 0.5, min_length = 5, max_length = 500, angle = 45,
      cutoff_value = 1, use_act = True, seed_from_gmwmi = False, crop_at_gmwmi = True,
      backtrack = True\<rparr>"

text \<open>
  An assignment \<^verbatim>\<open>self.x = v\<close> to a trait stores the value and, when the value differs
  from the old one, calls the class's \<^verbatim>\<open>_x_changed(self, new)\<close> method if it has one.
  \<^verbatim>\<open>_curvature_changed\<close> assigns to \<^verbatim>\<open>curvature\<close> itself, so the setter and the
  handler are mutually recursive; the recursion ends because the second assignment of
  \<^verbatim>\<open>0.0\<close> no longer changes the value.
\<close>

function set_curvature :: "MRtrix_tracking_config \<Rightarrow> real \<Rightarrow> MRtrix_tracking_config"
  and curvature_changed :: "MRtrix_tracking_config \<Rightarrow> real \<Rightarrow> MRtrix_tracking_config"
where
  "set_curvature c v =
     (if curvature c = v then c else curvature_changed (c\<lparr>curvature := v\<rparr>) v)"
| "curvature_changed c new = (if new \<le> 0.000001 then set_curvature c 0.0 else c)"
  by pat_completeness auto
termination
  by (relation "measure (\<lambda>x. case x of
        Inl (c, v) \<Rightarrow>
          (if curvature c = v then 0
           else if v \<le> 0.000001 then (if v = 0 then 2 else 4) else 1)
      | Inr (c, new) \<Rightarrow>
          (if new \<le> 0.000001 then (if curvature c = 0 then 1 else 3) else (0::nat)))")
    auto

declare set_curvature.simps [simp del] curvature_changed.simps [simp del]

definition SD_changed :: "MRtrix_tracking_config \<Rightarrow> bool \<Rightarrow> MRtrix_tracking_config" where
  "SD_changed c new =
     (if tracking_mode c = ''Deterministic'' \<and> \<not> new then set_curvature c 2.0
      else if tracking_mode c = ''Deterministic'' \<and> new then set_curvature c 0.0
      else if tracking_mode c = ''Probabilistic'' then set_curvature c 1.0
      else c)"

definition set_SD :: "MRtrix_tracking_config \<Rightarrow> bool \<Rightarrow> MRtrix_tracking_config" where
  "set_SD c v = (if SD c = v then c else SD_changed (c\<lparr>SD := v\<rparr>) v)"

definition tracking_mode_changed ::
  "MRtrix_tracking_config \<Rightarrow> string \<Rightarrow> MRtrix_tracking_config" where
  "tracking_mode_changed c new =
     (if new = ''Deterministic'' \<and> \<not> SD c then set_curvature c 2.0
      else if new = ''Deterministic'' \<and> SD c then set_curvature c 0.0
      else if new = ''Probabilistic'' then set_curvature c 1.0
      else c)"

definition set_tracking_mode ::
  "MRtrix_tracking_config \<Rightarrow> string \<Rightarrow> MRtrix_tracking_config" where
  "set_tracking_mode c v =
     (if tracking_mode c = v then c
      else tracking_mode_changed (c\<lparr>tracking_mode := v\<rparr>) v)"

text \<open>
  The three dependent flags have no handler of their own: an assignment just stores.
\<close>

definition use_act_changed :: "MRtrix_tracking_config \<Rightarrow> bool \<Rightarrow> MRtrix_tracking_config" where
  "use_act_changed c new =
     (if new = False
      then c\<lparr>crop_at_gmwmi := False, seed_from_gmwmi := False, backtrack := False\<rparr>
      else c)"

definition set_use_act :: "MRtrix_tracking_config \<Rightarrow> bool \<Rightarrow> MRtrix_tracking_config" where
  "set_use_act c v = (if use_act c = v then c else use_act_changed (c\<lparr>use_act := v\<rparr>) v)"

text \<open>
  Every write a caller can make to the object. The constructor \<^verbatim>\<open>HasTraits(**kw)\<close>
  starts from the defaults and makes one such write per keyword argument, in the order
  in which the interpreter enumerates them.
\<close>

datatype assignment =
    Set_tracking_mode string
  | Set_SD bool
  | Set_desired_number_of_tracks int
  | Set_curvature real
  | Set_step_size real
  | Set_min_length real
  | Set_max_length real
  | Set_angle real
  | Set_cutoff_value real
  | Set_use_act bool
  | Set_seed_from_gmwmi bool
  | Set_crop_at_gmwmi bool
  | Set_backtrack bool

fun assign :: "MRtrix_tracking_config \<Rightarrow> assignment \<Rightarrow> MRtrix_tracking_config" where
  "assign c (Set_tracking_mode v) = set_tracking_mode c v"
| "assign c (Set_SD v) = set_SD c v"
| "assign c (Set_desired_number_of_tracks v) = c\<lparr>desired_number_of_tracks := v\<rparr>"
| "assign c (Set_curvature v) = set_curvature c v"
| "assign c (Set_step_size v) = c\<lparr>step_size := v\<rparr>"
| "assign c (Set_min_length v) = c\<lparr>min_length := v\<rparr>"
| "assign c (Set_max_length v) = c\<lparr>max_length := v\<rparr>"
| "assign c (Set_angle v) = c\<lparr>angle := v\<rparr>"
| "assign c (Set_cutoff_value v) = c\<lparr>cutoff_value := v\<rparr>"
| "assign c (Set_use_act v) = set_use_act c v"
| "assign c (Set_seed_from_gmwmi v) = c\<lparr>seed_from_gmwmi := v\<rparr>"
| "assign c (Set_crop_at_gmwmi v) = c\<lparr>crop_at_gmwmi := v\<rparr>"
| "assign c (Set_backtrack v) = c\<lparr>backtrack := v\<rparr>"

definition construct :: "assignment list \<Rightarrow> MRtrix_tracking_config" where
  "construct kw = foldl assign MRtrix_defaults kw"

inductive reachable :: "MRtrix_tracking_config \<Rightarrow> bool" where
  constructed: "reachable (construct kw)"
| assigned: "reachable c \<Longrightarrow> reachable (assign c a)"

text \<open>The derived curvature the handlers of the two driving fields aim at.\<close>

definition derived_curvature :: "MRtrix_tracking_config \<Rightarrow> bool" where
  "derived_curvature c \<longleftrightarrow>
     (tracking_mode c = ''Deterministic'' \<and> \<not> SD c \<longrightarrow> curvature c = 2.0) \<and>
     (tracking_mode c = ''Deterministic'' \<and> SD c \<longrightarrow> curvature c = 0.0) \<and>
     (tracking_mode c = ''Probabilistic'' \<longrightarrow> curvature c = 1.0)"

definition snapped :: "MRtrix_tracking_config \<Rightarrow> bool" where
  "snapped c \<longleftrightarrow> curvature c = 0 \<or> 0.000001 < curvature c"
lemma set_curvature_eq:
  "set_curvature c v =
     (if curvature c = v then c
      else if v \<le> 0.000001 then c\<lparr>curvature := 0\<rparr> else c\<lparr>curvature := v\<rparr>)"
  by (simp add: set_curvature.simps curvature_changed.simps)

lemma curvature_set_curvature:
  "curvature (set_curvature c v) =
     (if curvature c = v then v else if v \<le> 0.000001 then 0 else v)"
  by (simp add: set_curvature_eq)

lemma set_curvature_frame:
  "tracking_mode (set_curvature c v) = tracking_mode c"
  "SD (set_curvature c v) = SD c"
  "use_act (set_curvature c v) = use_act c"
  by (simp_all add: set_curvature_eq)

lemma set_SD_derived:
  assumes "SD c \<noteq> b"
  shows "derived_curvature (set_SD c b)"
  using assms
  by (simp add: set_SD_def SD_changed_def derived_curvature_def set_curvature_eq)

lemma set_tracking_mode_derived:
  assumes "tracking_mode c \<noteq> m"
  shows "derived_curvature (set_tracking_mode c m)"
  using assms
  by (simp add: set_tracking_mode_def tracking_mode_changed_def derived_curvature_def
      set_curvature_eq)

lemma snapped_set_curvature: "snapped c \<Longrightarrow> snapped (set_curvature c v)"
  by (auto simp: snapped_def set_curvature_eq)

lemma snapped_assign: "snapped c \<Longrightarrow> snapped (assign c a)"
proof (cases a)
  case (Set_tracking_mode v)
  assume "snapped c"
  then show ?thesis
    unfolding Set_tracking_mode
    by (auto simp: set_tracking_mode_def tracking_mode_changed_def snapped_def
        set_curvature_eq)
next
  case (Set_SD v)
  assume "snapped c"
  then show ?thesis
    unfolding Set_SD
    by (auto simp: set_SD_def SD_changed_def snapped_def set_curvature_eq)
next
  case (Set_curvature v)
  assume "snapped c"
  then show ?thesis
    unfolding Set_curvature by (simp add: snapped_set_curvature)
next
  case (Set_use_act v)
  assume "snapped c"
  then show ?thesis
    unfolding Set_use_act by (simp add: set_use_act_def use_act_changed_def snapped_def)
qed (simp_all add: snapped_def)

lemma snapped_foldl: "snapped c \<Longrightarrow> snapped (foldl assign c kw)"
  by (induction kw arbitrary: c) (simp_all add: snapped_assign)

lemma reachable_snapped: "reachable c \<Longrightarrow> snapped c"
proof (induction rule: reachable.induct)
  case (constructed kw)
  have "snapped MRtrix_defaults"
    by (simp add: snapped_def MRtrix_defaults_def)
  then show ?case
    unfolding construct_def by (rule snapped_foldl)
next
  case (assigned c a)
  then show ?case by (simp add: snapped_assign)
qed
text \<open>
  A write that does not change a driving field calls no handler, so it leaves a
  curvature written explicitly before as it is.
\<close>

lemma set_SD_same: "set_SD c (SD c) = c"
  by (simp add: set_SD_def)

lemma set_tracking_mode_same: "set_tracking_mode c (tracking_mode c) = c"
  by (simp add: set_tracking_mode_def)

text \<open>
  Claim C2. After a mutation of \<^verbatim>\<open>SD\<close> or of \<^verbatim>\<open>tracking_mode\<close> (a write that changes
  the field) the curvature is 2.0 for Deterministic without spherical deconvolution, 0.0
  for Deterministic with it and 1.0 for Probabilistic; and a write of a curvature of at
  most 1e-6 leaves the curvature at exactly 0.0.
\<close>

theorem curvature_rules:
  assumes "reachable c"
  shows "(SD c \<noteq> b \<longrightarrow> derived_curvature (assign c (Set_SD b))) \<and>
         (tracking_mode c \<noteq> m \<longrightarrow> derived_curvature (assign c (Set_tracking_mode m))) \<and>
         (v \<le> 0.000001 \<longrightarrow> curvature (assign c (Set_curvature v)) = 0.0)"
proof (intro conjI impI)
  assume "SD c \<noteq> b"
  then show "derived_curvature (assign c (Set_SD b))"
    by (simp add: set_SD_derived)
next
  assume "tracking_mode c \<noteq> m"
  then show "derived_curvature (assign c (Set_tracking_mode m))"
    by (simp add: set_tracking_mode_derived)
next
  assume v: "v \<le> 0.000001"
  from assms have "snapped c" by (rule reachable_snapped)
  with v show "curvature (assign c (Set_curvature v)) = 0.0"
    by (auto simp: curvature_set_curvature snapped_def)
qed

theorem curvature_rules_witness:
  "reachable (construct [Set_tracking_mode ''Deterministic'']) \<and>
   curvature (construct [Set_tracking_mode ''Deterministic'']) = 2.0 \<and>
   curvature (assign (construct [Set_tracking_mode ''Deterministic'']) (Set_SD True)) = 0.0 \<and>
   curvature (assign (construct [Set_tracking_mode ''Deterministic''])
     (Set_tracking_mode ''Probabilistic'')) = 1.0 \<and>
   curvature (assign (construct [Set_tracking_mode ''Deterministic''])
     (Set_curvature (- 1))) = 0.0"
proof -
  let ?c = "construct [Set_tracking_mode ''Deterministic'']"
  have r: "reachable ?c" by (rule reachable.constructed)
  have c: "?c = MRtrix_defaults\<lparr>tracking_mode := ''Deterministic''\<rparr>"
    by (simp add: construct_def set_tracking_mode_def tracking_mode_changed_def
        MRtrix_defaults_def set_curvature_eq)
  have f: "SD ?c \<noteq> True" "tracking_mode ?c \<noteq> ''Probabilistic''" "curvature ?c = 2.0"
    unfolding c by (simp_all add: MRtrix_defaults_def)
  have s: "SD (assign ?c (Set_SD True))"
    "tracking_mode (assign ?c (Set_SD True)) = ''Deterministic''"
    "tracking_mode (assign ?c (Set_tracking_mode ''Probabilistic'')) = ''Probabilistic''"
    unfolding c
    by (simp_all add: MRtrix_defaults_def set_SD_def SD_changed_def set_tracking_mode_def
        tracking_mode_changed_def set_curvature_frame)
  from curvature_rules [OF r, of True "''Probabilistic''" "- 1"] f s r
  show ?thesis
    by (simp add: derived_curvature_def)
qed

text \<open>
  Claim C3 as stated fails: the flags are cleared by the handler of \<^verbatim>\<open>use_act\<close> only,
  and a later write to a dependent flag is stored as it is. After the default
  construction, \<^verbatim>\<open>use_act = False\<close> followed by \<^verbatim>\<open>backtrack = True\<close> gives an object
  without anatomical constraint whose \<^verbatim>\<open>backtrack\<close> flag is set.
\<close>

definition act_flags_example :: MRtrix_tracking_config where
  "act_flags_example = assign (assign (construct []) (Set_use_act False)) (Set_backtrack True)"

theorem act_flags_counterexample:
  "reachable act_flags_example \<and> \<not> use_act act_flags_example \<and> backtrack act_flags_example"
proof -
  have "reachable act_flags_example"
    unfolding act_flags_example_def by (intro reachable.intros)
  moreover have "\<not> use_act act_flags_example \<and> backtrack act_flags_example"
    by (simp add: act_flags_example_def construct_def MRtrix_defaults_def set_use_act_def
        use_act_changed_def)
  ultimately show ?thesis by simp
qed

text \<open>
  Claim C3, amended. A write that changes \<^verbatim>\<open>use_act\<close> from true to false (the
  constructor's own write of a keyword argument included) leaves the three dependent
  flags false.
\<close>

theorem use_act_change_clears_flags:
  assumes "use_act c"
  shows "\<not> use_act (assign c (Set_use_act False)) \<and>
         \<not> crop_at_gmwmi (assign c (Set_use_act False)) \<and>
         \<not> seed_from_gmwmi (assign c (Set_use_act False)) \<and>
         \<not> backtrack (assign c (Set_use_act False))"
  using assms by (simp add: set_use_act_def use_act_changed_def)

theorem use_act_change_clears_flags_witness:
  "use_act (construct []) \<and> backtrack (construct []) \<and> crop_at_gmwmi (construct []) \<and>
   \<not> use_act (construct [Set_use_act False]) \<and>
   \<not> crop_at_gmwmi (construct [Set_use_act False]) \<and>
   \<not> seed_from_gmwmi (construct [Set_use_act False]) \<and>
   \<not> backtrack (construct [Set_use_act False])"
proof -
  have u: "use_act (construct [])" "backtrack (construct [])" "crop_at_gmwmi (construct [])"
    by (simp_all add: construct_def MRtrix_defaults_def)
  have e: "construct [Set_use_act False] = assign (construct []) (Set_use_act False)"
    by (simp add: construct_def)
  from use_act_change_clears_flags [OF u(1)] u show ?thesis
    unfolding e by simp
qed

section \<open>The MRtrix backend: its workflow\<close>

definition mrtrix_inputnode :: stmt where
  "mrtrix_inputnode = Node ''inputnode''
     (IdentityInterface [''DWI'', ''wm_mask_resampled'', ''gm_registered'',
        ''act_5tt_registered'', ''gmwmi_registered'', ''grad'']) []"

text \<open>The erosion node and its one connection, made before the dispatch.\<close>

definition mrtrix_erode_statements :: "stmt list" where
  "mrtrix_erode_statements =
     [Node ''wm_erode'' Erode [(''out_filename'', PStr ''wm_mask_resampled.nii.gz'')],
      SetInput ''wm_erode'' ''number_of_passes'' (PInt 3),
      SetInput ''wm_erode'' ''filtertype'' (PStr ''erode''),
      Connect ''inputnode'' ''wm_mask_resampled'' ''wm_erode'' ''in_file'']"

definition mrtrix_streamline_inputs :: "MRtrix_tracking_config \<Rightarrow> string \<Rightarrow> stmt list" where
  "mrtrix_streamline_inputs config mrtrix_tracking =
     [SetInput mrtrix_tracking ''desired_number_of_tracks''
        (PInt (desired_number_of_tracks config)),
      SetInput mrtrix_tracking ''maximum_tract_length'' (PFloat (max_length config)),
      SetInput mrtrix_tracking ''minimum_tract_length'' (PFloat (min_length config)),
      SetInput mrtrix_tracking ''step_size'' (PFloat (MRtrix_tracking_config.step_size config)),
      SetInput mrtrix_tracking ''angle'' (PFloat (angle config)),
      SetInput mrtrix_tracking ''cutoff_value'' (PFloat (cutoff_value config))]"

definition mrtrix_seeds_connections :: "stmt list" where
  "mrtrix_seeds_connections =
     [Connect ''inputnode'' ''wm_mask_resampled'' ''mrtrix_seeds'' ''WM_file'',
      Connect ''inputnode'' ''gm_registered'' ''mrtrix_seeds'' ''ROI_files'']"

text \<open>The block \<^verbatim>\<open>if config.use_act: ... else: ...\<close>, the same in both branches.\<close>

definition mrtrix_act_statements :: "MRtrix_tracking_config \<Rightarrow> string \<Rightarrow> stmt list" where
  "mrtrix_act_statements config mrtrix_tracking =
     (if MRtrix_tracking_config.use_act config
      then [Connect ''inputnode'' ''act_5tt_registered'' mrtrix_tracking ''act_file'',
            SetInput mrtrix_tracking ''backtrack'' (PBool (backtrack config)),
            SetInput mrtrix_tracking ''crop_at_gmwmi'' (PBool (crop_at_gmwmi config))]
      else [Connect ''inputnode'' ''wm_mask_resampled'' mrtrix_tracking ''mask_file''])"

text \<open>The block \<^verbatim>\<open>if config.seed_from_gmwmi: ... else: ...\<close>.\<close>

definition mrtrix_seed_statements :: "MRtrix_tracking_config \<Rightarrow> string \<Rightarrow> stmt list" where
  "mrtrix_seed_statements config mrtrix_tracking =
     (if seed_from_gmwmi config
      then [Connect ''inputnode'' ''gmwmi_registered'' mrtrix_tracking ''seed_gmwmi'']
      else [Connect ''inputnode'' ''wm_mask_resampled'' mrtrix_tracking ''seed_file''])"

definition mrtrix_converter_connections :: "string \<Rightarrow> stmt list" where
  "mrtrix_converter_connections mrtrix_tracking =
     [Connect ''inputnode'' ''DWI'' mrtrix_tracking ''in_file'',
      Connect mrtrix_tracking ''tracked'' ''trackvis'' ''in_tracks'',
      Connect ''inputnode'' ''wm_mask_resampled'' ''trackvis'' ''in_image'',
      Connect ''trackvis'' ''out_tracks'' ''outputnode'' ''track_file'']"

definition mrtrix_converter :: "stmt list" where
  "mrtrix_converter =
     [Node ''trackvis'' Tck2Trk [],
      SetInput ''trackvis'' ''out_tracks'' (PStr ''converted.trk'')]"

text \<open>The branch \<^verbatim>\<open>if config.tracking_mode == 'Deterministic'\<close>.\<close>

definition mrtrix_deterministic_branch :: "MRtrix_tracking_config \<Rightarrow> stmt list" where
  "mrtrix_deterministic_branch config =
     (let mrtrix_tracking = ''mrtrix_deterministic_tracking'' in
      [Node ''mrtrix_seeds'' Make_mrtrix_seeds [],
       Node mrtrix_tracking StreamlineTrack []] @
      mrtrix_streamline_inputs config mrtrix_tracking @
      (if curvature config \<ge> 0.000001
       then [SetInput mrtrix_tracking ''rk4'' (PBool True),
             SetInput mrtrix_tracking ''inputmodel'' (PStr ''SD_Stream'')]
       else [SetInput mrtrix_tracking ''inputmodel'' (PStr ''SD_Stream'')]) @
      [Connect ''inputnode'' ''grad'' mrtrix_tracking ''gradient_encoding_file'',
       Node ''voxel2WorldMatrixExtracter'' ExtractHeaderVoxel2WorldMatrix [],
       Connect ''inputnode'' ''wm_mask_resampled'' ''voxel2WorldMatrixExtracter'' ''in_file'',
       Node ''orient_matcher'' Match_orientations []] @
      mrtrix_seeds_connections @
      mrtrix_act_statements config mrtrix_tracking @
      mrtrix_seed_statements config mrtrix_tracking @
      mrtrix_converter @
      mrtrix_converter_connections mrtrix_tracking)"

text \<open>The branch \<^verbatim>\<open>elif config.tracking_mode == 'Probabilistic'\<close>.\<close>

definition mrtrix_probabilistic_branch :: "MRtrix_tracking_config \<Rightarrow> stmt list" where
  "mrtrix_probabilistic_branch config =
     (let mrtrix_tracking = ''mrtrix_probabilistic_tracking'' in
      [Node ''mrtrix_seeds'' Make_mrtrix_seeds [],
       Node mrtrix_tracking StreamlineTrack []] @
      mrtrix_streamline_inputs config mrtrix_tracking @
      (if MRtrix_tracking_config.SD config
       then [SetInput mrtrix_tracking ''inputmodel'' (PStr ''iFOD2'')]
       else [SetInput mrtrix_tracking ''inputmodel'' (PStr ''Tensor_Prob'')]) @
      mrtrix_converter @
      mrtrix_seeds_connections @
      mrtrix_act_statements config mrtrix_tracking @
      mrtrix_seed_statements config mrtrix_tracking @
      mrtrix_converter_connections mrtrix_tracking)"

definition mrtrix_statements :: "MRtrix_tracking_config \<Rightarrow> stmt list" where
  "mrtrix_statements config =
     [mrtrix_inputnode, outputnode] @
     mrtrix_erode_statements @
     (if MRtrix_tracking_config.tracking_mode config = ''Deterministic''
      then mrtrix_deterministic_branch config
      else if MRtrix_tracking_config.tracking_mode config = ''Probabilistic''
      then mrtrix_probabilistic_branch config
      else [])"

definition create_mrtrix_tracking_flow :: "MRtrix_tracking_config \<Rightarrow> workflow" where
  "create_mrtrix_tracking_flow config = build (mrtrix_statements config)"

text \<open>
  The name of the tracking node of a mode, and the edges that arrive at one of its two
  seed inputs.
\<close>

definition mrtrix_tracking_name :: "MRtrix_tracking_config \<Rightarrow> string" where
  "mrtrix_tracking_name config =
     (if MRtrix_tracking_config.tracking_mode config = ''Deterministic''
      then ''mrtrix_deterministic_tracking'' else ''mrtrix_probabilistic_tracking'')"

definition seed_edges :: "workflow \<Rightarrow> string \<Rightarrow> edge list" where
  "seed_edges w n =
     filter (\<lambda>e. dst_port e = ''seed_file'' \<or> dst_port e = ''seed_gmwmi'') (edges_into w n)"

definition mask_edges :: "workflow \<Rightarrow> string \<Rightarrow> edge list" where
  "mask_edges w n = filter (\<lambda>e. dst_port e = ''mask_file'') (edges_into w n)"
section \<open>The MRtrix workflow, edge by edge\<close>

definition mrtrix_act_edges :: "MRtrix_tracking_config \<Rightarrow> string \<Rightarrow> edge list" where
  "mrtrix_act_edges c t =
     (if MRtrix_tracking_config.use_act c
      then [\<lparr>src = ''inputnode'', src_port = ''act_5tt_registered'', dst = t,
              dst_port = ''act_file''\<rparr>]
      else [\<lparr>src = ''inputnode'', src_port = ''wm_mask_resampled'', dst = t,
              dst_port = ''mask_file''\<rparr>])"

definition mrtrix_seed_edges :: "MRtrix_tracking_config \<Rightarrow> string \<Rightarrow> edge list" where
  "mrtrix_seed_edges c t =
     (if seed_from_gmwmi c
      then [\<lparr>src = ''inputnode'', src_port = ''gmwmi_registered'', dst = t,
              dst_port = ''seed_gmwmi''\<rparr>]
      else [\<lparr>src = ''inputnode'', src_port = ''wm_mask_resampled'', dst = t,
              dst_port = ''seed_file''\<rparr>])"

definition mrtrix_erode_edge :: edge where
  "mrtrix_erode_edge = \<lparr>src = ''inputnode'', src_port = ''wm_mask_resampled'',
     dst = ''wm_erode'', dst_port = ''in_file''\<rparr>"

definition mrtrix_seeds_edges :: "edge list" where
  "mrtrix_seeds_edges =
     [\<lparr>src = ''inputnode'', src_port = ''wm_mask_resampled'', dst = ''mrtrix_seeds'',
        dst_port = ''WM_file''\<rparr>,
      \<lparr>src = ''inputnode'', src_port = ''gm_registered'', dst = ''mrtrix_seeds'',
        dst_port = ''ROI_files''\<rparr>]"

definition mrtrix_converter_edges :: "string \<Rightarrow> edge list" where
  "mrtrix_converter_edges t =
     [\<lparr>src = ''inputnode'', src_port = ''DWI'', dst = t, dst_port = ''in_file''\<rparr>,
      \<lparr>src = t, src_port = ''tracked'', dst = ''trackvis'', dst_port = ''in_tracks''\<rparr>,
      \<lparr>src = ''inputnode'', src_port = ''wm_mask_resampled'', dst = ''trackvis'',
        dst_port = ''in_image''\<rparr>,
      \<lparr>src = ''trackvis'', src_port = ''out_tracks'', dst = ''outputnode'',
        dst_port = ''track_file''\<rparr>]"

lemma mrtrix_block_edges:
  "concat (map stmt_edges (mrtrix_act_statements c t)) = mrtrix_act_edges c t"
  "concat (map stmt_edges (mrtrix_seed_statements c t)) = mrtrix_seed_edges c t"
  "concat (map stmt_edges (mrtrix_streamline_inputs c t)) = []"
  "concat (map stmt_edges mrtrix_converter) = []"
  "concat (map stmt_edges mrtrix_seeds_connections) = mrtrix_seeds_edges"
  "concat (map stmt_edges (mrtrix_converter_connections t)) = mrtrix_converter_edges t"
  "concat (map stmt_edges mrtrix_erode_statements) = [mrtrix_erode_edge]"
  by (simp_all add: mrtrix_act_statements_def mrtrix_act_edges_def mrtrix_seed_statements_def
      mrtrix_seed_edges_def mrtrix_streamline_inputs_def mrtrix_converter_def
      mrtrix_seeds_connections_def mrtrix_seeds_edges_def mrtrix_converter_connections_def
      mrtrix_converter_edges_def mrtrix_erode_statements_def mrtrix_erode_edge_def)

lemma mrtrix_deterministic_edges:
  assumes "MRtrix_tracking_config.tracking_mode c = ''Deterministic''"
  shows "flow_edges (create_mrtrix_tracking_flow c) =
     [mrtrix_erode_edge,
      \<lparr>src = ''inputnode'', src_port = ''grad'', dst = ''mrtrix_deterministic_tracking'',
        dst_port = ''gradient_encoding_file''\<rparr>,
      \<lparr>src = ''inputnode'', src_port = ''wm_mask_resampled'',
        dst = ''voxel2WorldMatrixExtracter'', dst_port = ''in_file''\<rparr>] @
     mrtrix_seeds_edges @
     mrtrix_act_edges c ''mrtrix_deterministic_tracking'' @
     mrtrix_seed_edges c ''mrtrix_deterministic_tracking'' @
     mrtrix_converter_edges ''mrtrix_deterministic_tracking''"
  using assms
  by (simp add: create_mrtrix_tracking_flow_def flow_edges_build mrtrix_statements_def
      mrtrix_inputnode_def outputnode_def mrtrix_deterministic_branch_def Let_def
      mrtrix_block_edges)

lemma mrtrix_probabilistic_edges:
  assumes "MRtrix_tracking_config.tracking_mode c = ''Probabilistic''"
  shows "flow_edges (create_mrtrix_tracking_flow c) =
     [mrtrix_erode_edge] @
     mrtrix_seeds_edges @
     mrtrix_act_edges c ''mrtrix_probabilistic_tracking'' @
     mrtrix_seed_edges c ''mrtrix_probabilistic_tracking'' @
     mrtrix_converter_edges ''mrtrix_probabilistic_tracking''"
  using assms
  by (simp add: create_mrtrix_tracking_flow_def flow_edges_build mrtrix_statements_def
      mrtrix_inputnode_def outputnode_def mrtrix_probabilistic_branch_def Let_def
      mrtrix_block_edges)

lemma mrtrix_other_mode_edges:
  assumes "MRtrix_tracking_config.tracking_mode c \<noteq> ''Deterministic''"
    and "MRtrix_tracking_config.tracking_mode c \<noteq> ''Probabilistic''"
  shows "flow_edges (create_mrtrix_tracking_flow c) = [mrtrix_erode_edge]"
  using assms
  by (simp add: create_mrtrix_tracking_flow_def flow_edges_build mrtrix_statements_def
      mrtrix_inputnode_def outputnode_def mrtrix_block_edges)

lemmas mrtrix_edge_defs = mrtrix_erode_edge_def mrtrix_seeds_edges_def mrtrix_act_edges_def
  mrtrix_seed_edges_def mrtrix_converter_edges_def

text \<open>No edge leaves the erosion node, and none leaves the seed node.\<close>

lemma mrtrix_edges_from_erode: "edges_from (create_mrtrix_tracking_flow c) ''wm_erode'' = []"
proof -
  consider (det) "MRtrix_tracking_config.tracking_mode c = ''Deterministic''"
    | (prob) "MRtrix_tracking_config.tracking_mode c = ''Probabilistic''"
    | (other) "MRtrix_tracking_config.tracking_mode c \<noteq> ''Deterministic''"
        "MRtrix_tracking_config.tracking_mode c \<noteq> ''Probabilistic''"
    by blast
  then show ?thesis
  proof cases
    case det
    show ?thesis
      unfolding edges_from_def mrtrix_deterministic_edges [OF det]
      by (simp add: mrtrix_edge_defs)
  next
    case prob
    show ?thesis
      unfolding edges_from_def mrtrix_probabilistic_edges [OF prob]
      by (simp add: mrtrix_edge_defs)
  next
    case other
    show ?thesis
      unfolding edges_from_def mrtrix_other_mode_edges [OF other]
      by (simp add: mrtrix_edge_defs)
  qed
qed

lemma mrtrix_edges_from_seeds:
  "edges_from (create_mrtrix_tracking_flow c) ''mrtrix_seeds'' = []"
proof -
  consider (det) "MRtrix_tracking_config.tracking_mode c = ''Deterministic''"
    | (prob) "MRtrix_tracking_config.tracking_mode c = ''Probabilistic''"
    | (other) "MRtrix_tracking_config.tracking_mode c \<noteq> ''Deterministic''"
        "MRtrix_tracking_config.tracking_mode c \<noteq> ''Probabilistic''"
    by blast
  then show ?thesis
  proof cases
    case det
    show ?thesis
      unfolding edges_from_def mrtrix_deterministic_edges [OF det]
      by (simp add: mrtrix_edge_defs)
  next
    case prob
    show ?thesis
      unfolding edges_from_def mrtrix_probabilistic_edges [OF prob]
      by (simp add: mrtrix_edge_defs)
  next
    case other
    show ?thesis
      unfolding edges_from_def mrtrix_other_mode_edges [OF other]
      by (simp add: mrtrix_edge_defs)
  qed
qed

lemma mrtrix_edges_into_erode:
  "edges_into (create_mrtrix_tracking_flow c) ''wm_erode'' = [mrtrix_erode_edge]"
proof -
  consider (det) "MRtrix_tracking_config.tracking_mode c = ''Deterministic''"
    | (prob) "MRtrix_tracking_config.tracking_mode c = ''Probabilistic''"
    | (other) "MRtrix_tracking_config.tracking_mode c \<noteq> ''Deterministic''"
        "MRtrix_tracking_config.tracking_mode c \<noteq> ''Probabilistic''"
    by blast
  then show ?thesis
  proof cases
    case det
    show ?thesis
      unfolding edges_into_def mrtrix_deterministic_edges [OF det]
      by (simp add: mrtrix_edge_defs)
  next
    case prob
    show ?thesis
      unfolding edges_into_def mrtrix_probabilistic_edges [OF prob]
      by (simp add: mrtrix_edge_defs)
  next
    case other
    show ?thesis
      unfolding edges_into_def mrtrix_other_mode_edges [OF other]
      by (simp add: mrtrix_edge_defs)
  qed
qed

text \<open>The edges that arrive at the tracking node, in the order they are connected.\<close>

lemma mrtrix_edges_into_tracking:
  assumes "MRtrix_tracking_config.tracking_mode c = ''Deterministic'' \<or>
           MRtrix_tracking_config.tracking_mode c = ''Probabilistic''"
  shows "edges_into (create_mrtrix_tracking_flow c) (mrtrix_tracking_name c) =
     (if MRtrix_tracking_config.tracking_mode c = ''Deterministic''
      then [\<lparr>src = ''inputnode'', src_port = ''grad'', dst = mrtrix_tracking_name c,
              dst_port = ''gradient_encoding_file''\<rparr>]
      else []) @
     mrtrix_act_edges c (mrtrix_tracking_name c) @
     mrtrix_seed_edges c (mrtrix_tracking_name c) @
     [\<lparr>src = ''inputnode'', src_port = ''DWI'', dst = mrtrix_tracking_name c,
        dst_port = ''in_file''\<rparr>]"
proof (cases "MRtrix_tracking_config.tracking_mode c = ''Deterministic''")
  case True
  show ?thesis
    unfolding edges_into_def mrtrix_deterministic_edges [OF True]
    using True by (simp add: mrtrix_edge_defs mrtrix_tracking_name_def)
next
  case False
  with assms have p: "MRtrix_tracking_config.tracking_mode c = ''Probabilistic''"
    by simp
  show ?thesis
    unfolding edges_into_def mrtrix_probabilistic_edges [OF p]
    using p by (simp add: mrtrix_edge_defs mrtrix_tracking_name_def)
qed
section \<open>The MRtrix workflow, stage by stage\<close>

lemma set_add_node: "set (add_node n ns) = insert n (set ns)"
  by (auto simp: add_node_def)

lemma set_flow_nodes_foldl:
  "set (flow_nodes (foldl exec w ss)) =
     set (flow_nodes w) \<union> src ` set (concat (map stmt_edges ss)) \<union>
     dst ` set (concat (map stmt_edges ss))"
proof (induction ss arbitrary: w)
  case Nil
  show ?case by simp
next
  case (Cons s ss)
  show ?case
    by (cases s) (auto simp: Cons.IH set_add_node)
qed

lemma set_flow_nodes_build:
  "set (flow_nodes (build ss)) =
     src ` set (flow_edges (build ss)) \<union> dst ` set (flow_edges (build ss))"
  by (simp add: flow_edges_build) (simp add: build_def set_flow_nodes_foldl Workflow_def)

definition mrtrix_inputnode_obj :: node where
  "mrtrix_inputnode_obj = \<lparr>node_name = ''inputnode'',
     node_interface = IdentityInterface [''DWI'', ''wm_mask_resampled'', ''gm_registered'',
       ''act_5tt_registered'', ''gmwmi_registered'', ''grad''],
     node_inputs = []\<rparr>"

definition wm_erode_obj :: node where
  "wm_erode_obj = \<lparr>node_name = ''wm_erode'', node_interface = Erode,
     node_inputs = [(''out_filename'', PStr ''wm_mask_resampled.nii.gz''),
       (''number_of_passes'', PInt 3), (''filtertype'', PStr ''erode'')]\<rparr>"

definition mrtrix_seeds_obj :: node where
  "mrtrix_seeds_obj = \<lparr>node_name = ''mrtrix_seeds'', node_interface = Make_mrtrix_seeds,
     node_inputs = []\<rparr>"

definition trackvis_obj :: node where
  "trackvis_obj = \<lparr>node_name = ''trackvis'', node_interface = Tck2Trk,
     node_inputs = [(''out_tracks'', PStr ''converted.trk'')]\<rparr>"

definition voxel2WorldMatrixExtracter_obj :: node where
  "voxel2WorldMatrixExtracter_obj = \<lparr>node_name = ''voxel2WorldMatrixExtracter'',
     node_interface = ExtractHeaderVoxel2WorldMatrix, node_inputs = []\<rparr>"

definition orient_matcher_obj :: node where
  "orient_matcher_obj = \<lparr>node_name = ''orient_matcher'',
     node_interface = Match_orientations, node_inputs = []\<rparr>"

definition streamline_obj ::
  "MRtrix_tracking_config \<Rightarrow> string \<Rightarrow> (string \<times> pval) list \<Rightarrow> node" where
  "streamline_obj c name model = \<lparr>node_name = name, node_interface = StreamlineTrack,
     node_inputs =
       [(''desired_number_of_tracks'', PInt (desired_number_of_tracks c)),
        (''maximum_tract_length'', PFloat (max_length c)),
        (''minimum_tract_length'', PFloat (min_length c)),
        (''step_size'', PFloat (MRtrix_tracking_config.step_size c)),
        (''angle'', PFloat (angle c)),
        (''cutoff_value'', PFloat (cutoff_value c))] @
       model @
       (if MRtrix_tracking_config.use_act c
        then [(''backtrack'', PBool (backtrack c)), (''crop_at_gmwmi'', PBool (crop_at_gmwmi c))]
        else [])\<rparr>"

lemmas mrtrix_obj_defs = mrtrix_inputnode_obj_def outputnode_obj_def wm_erode_obj_def
  mrtrix_seeds_obj_def trackvis_obj_def voxel2WorldMatrixExtracter_obj_def
  orient_matcher_obj_def streamline_obj_def

lemmas mrtrix_stmt_defs = mrtrix_statements_def mrtrix_inputnode_def outputnode_def
  mrtrix_erode_statements_def mrtrix_deterministic_branch_def
  mrtrix_probabilistic_branch_def mrtrix_streamline_inputs_def mrtrix_seeds_connections_def
  mrtrix_act_statements_def mrtrix_seed_statements_def mrtrix_converter_def
  mrtrix_converter_connections_def Let_def

lemma mrtrix_deterministic_objs:
  assumes det: "MRtrix_tracking_config.tracking_mode c = ''Deterministic''"
  shows "objs (create_mrtrix_tracking_flow c) =
     [mrtrix_inputnode_obj, outputnode_obj, wm_erode_obj, mrtrix_seeds_obj,
      streamline_obj c ''mrtrix_deterministic_tracking''
        ((if curvature c \<ge> 0.000001 then [(''rk4'', PBool True)] else []) @
         [(''inputmodel'', PStr ''SD_Stream'')]),
      voxel2WorldMatrixExtracter_obj, orient_matcher_obj, trackvis_obj]"
proof (cases "curvature c \<ge> 0.000001")
  case True
  show ?thesis
  proof (cases "MRtrix_tracking_config.use_act c")
    case act: True
    with det \<open>curvature c \<ge> 0.000001\<close> show ?thesis
      by (simp add: create_mrtrix_tracking_flow_def objs_build mrtrix_stmt_defs
          mrtrix_obj_defs)
  next
    case act: False
    with det \<open>curvature c \<ge> 0.000001\<close> show ?thesis
      by (simp add: create_mrtrix_tracking_flow_def objs_build mrtrix_stmt_defs
          mrtrix_obj_defs)
  qed
next
  case False
  show ?thesis
  proof (cases "MRtrix_tracking_config.use_act c")
    case act: True
    with det \<open>\<not> curvature c \<ge> 0.000001\<close> show ?thesis
      by (simp add: create_mrtrix_tracking_flow_def objs_build mrtrix_stmt_defs
          mrtrix_obj_defs)
  next
    case act: False
    with det \<open>\<not> curvature c \<ge> 0.000001\<close> show ?thesis
      by (simp add: create_mrtrix_tracking_flow_def objs_build mrtrix_stmt_defs
          mrtrix_obj_defs)
  qed
qed

lemma mrtrix_probabilistic_objs:
  assumes prob: "MRtrix_tracking_config.tracking_mode c = ''Probabilistic''"
  shows "objs (create_mrtrix_tracking_flow c) =
     [mrtrix_inputnode_obj, outputnode_obj, wm_erode_obj, mrtrix_seeds_obj,
      streamline_obj c ''mrtrix_probabilistic_tracking''
        [(''inputmodel'',
          PStr (if MRtrix_tracking_config.SD c then ''iFOD2'' else ''Tensor_Prob''))],
      trackvis_obj]"
proof (cases "MRtrix_tracking_config.SD c")
  case True
  show ?thesis
  proof (cases "MRtrix_tracking_config.use_act c")
    case act: True
    with prob \<open>MRtrix_tracking_config.SD c\<close> show ?thesis
      by (simp add: create_mrtrix_tracking_flow_def objs_build mrtrix_stmt_defs
          mrtrix_obj_defs)
  next
    case act: False
    with prob \<open>MRtrix_tracking_config.SD c\<close> show ?thesis
      by (simp add: create_mrtrix_tracking_flow_def objs_build mrtrix_stmt_defs
          mrtrix_obj_defs)
  qed
next
  case False
  show ?thesis
  proof (cases "MRtrix_tracking_config.use_act c")
    case act: True
    with prob \<open>\<not> MRtrix_tracking_config.SD c\<close> show ?thesis
      by (simp add: create_mrtrix_tracking_flow_def objs_build mrtrix_stmt_defs
          mrtrix_obj_defs)
  next
    case act: False
    with prob \<open>\<not> MRtrix_tracking_config.SD c\<close> show ?thesis
      by (simp add: create_mrtrix_tracking_flow_def objs_build mrtrix_stmt_defs
          mrtrix_obj_defs)
  qed
qed

lemma mrtrix_other_mode_objs:
  assumes "MRtrix_tracking_config.tracking_mode c \<noteq> ''Deterministic''"
    and "MRtrix_tracking_config.tracking_mode c \<noteq> ''Probabilistic''"
  shows "objs (create_mrtrix_tracking_flow c) =
     [mrtrix_inputnode_obj, outputnode_obj, wm_erode_obj]"
  using assms
  by (simp add: create_mrtrix_tracking_flow_def objs_build mrtrix_stmt_defs mrtrix_obj_defs)

lemma stages_of_filter:
  "stages_of w i =
     filter (\<lambda>ob. node_interface ob = i \<and> node_name ob \<in> set (flow_nodes w)) (objs w)"
  by (simp add: stages_of_def stages_def conj_commute)

lemma edge_ends_in_flow:
  assumes "e \<in> set (flow_edges (build ss))"
  shows "src e \<in> set (flow_nodes (build ss))" and "dst e \<in> set (flow_nodes (build ss))"
  using assms by (simp_all add: set_flow_nodes_build)

lemma mrtrix_obj_names:
  "node_name mrtrix_inputnode_obj = ''inputnode''"
  "node_name outputnode_obj = ''outputnode''"
  "node_name wm_erode_obj = ''wm_erode''"
  "node_name mrtrix_seeds_obj = ''mrtrix_seeds''"
  "node_name trackvis_obj = ''trackvis''"
  "node_name voxel2WorldMatrixExtracter_obj = ''voxel2WorldMatrixExtracter''"
  "node_name orient_matcher_obj = ''orient_matcher''"
  "node_name (streamline_obj c n m) = n"
  by (simp_all add: mrtrix_obj_defs)

lemma mrtrix_obj_interfaces:
  "node_interface mrtrix_inputnode_obj =
     IdentityInterface [''DWI'', ''wm_mask_resampled'', ''gm_registered'',
       ''act_5tt_registered'', ''gmwmi_registered'', ''grad'']"
  "node_interface outputnode_obj = IdentityInterface [''track_file'']"
  "node_interface wm_erode_obj = Erode"
  "node_interface mrtrix_seeds_obj = Make_mrtrix_seeds"
  "node_interface trackvis_obj = Tck2Trk"
  "node_interface voxel2WorldMatrixExtracter_obj = ExtractHeaderVoxel2WorldMatrix"
  "node_interface orient_matcher_obj = Match_orientations"
  "node_interface (streamline_obj c n m) = StreamlineTrack"
  by (simp_all add: mrtrix_obj_defs)

lemma wm_erode_in_flow: "''wm_erode'' \<in> set (flow_nodes (create_mrtrix_tracking_flow c))"
proof -
  have "mrtrix_erode_edge \<in> set (edges_into (create_mrtrix_tracking_flow c) ''wm_erode'')"
    by (simp add: mrtrix_edges_into_erode)
  then have "mrtrix_erode_edge \<in> set (flow_edges (create_mrtrix_tracking_flow c))"
    by (simp add: edges_into_def)
  then have "dst mrtrix_erode_edge \<in> set (flow_nodes (create_mrtrix_tracking_flow c))"
    unfolding create_mrtrix_tracking_flow_def by (rule edge_ends_in_flow)
  then show ?thesis by (simp add: mrtrix_erode_edge_def)
qed

text \<open>Whatever the configuration, the workflow has exactly one erosion stage.\<close>

lemma mrtrix_erode_stage: "stages_of (create_mrtrix_tracking_flow c) Erode = [wm_erode_obj]"
proof -
  consider (det) "MRtrix_tracking_config.tracking_mode c = ''Deterministic''"
    | (prob) "MRtrix_tracking_config.tracking_mode c = ''Probabilistic''"
    | (other) "MRtrix_tracking_config.tracking_mode c \<noteq> ''Deterministic''"
        "MRtrix_tracking_config.tracking_mode c \<noteq> ''Probabilistic''"
    by blast
  then show ?thesis
  proof cases
    case det
    show ?thesis
      unfolding stages_of_filter mrtrix_deterministic_objs [OF det]
      by (simp add: mrtrix_obj_names mrtrix_obj_interfaces wm_erode_in_flow)
  next
    case prob
    show ?thesis
      unfolding stages_of_filter mrtrix_probabilistic_objs [OF prob]
      by (simp add: mrtrix_obj_names mrtrix_obj_interfaces wm_erode_in_flow)
  next
    case other
    show ?thesis
      unfolding stages_of_filter mrtrix_other_mode_objs [OF other]
      by (simp add: mrtrix_obj_names mrtrix_obj_interfaces wm_erode_in_flow)
  qed
qed

text \<open>With one of the two tracking modes it has exactly one tracking stage.\<close>

lemma mrtrix_tracking_in_flow:
  assumes "MRtrix_tracking_config.tracking_mode c = ''Deterministic'' \<or>
           MRtrix_tracking_config.tracking_mode c = ''Probabilistic''"
  shows "mrtrix_tracking_name c \<in> set (flow_nodes (create_mrtrix_tracking_flow c))"
proof -
  let ?e = "\<lparr>src = ''inputnode'', src_port = ''DWI'', dst = mrtrix_tracking_name c,
     dst_port = ''in_file''\<rparr>"
  have "?e \<in> set (edges_into (create_mrtrix_tracking_flow c) (mrtrix_tracking_name c))"
    unfolding mrtrix_edges_into_tracking [OF assms] by simp
  then have "?e \<in> set (flow_edges (create_mrtrix_tracking_flow c))"
    by (simp add: edges_into_def)
  then have "dst ?e \<in> set (flow_nodes (create_mrtrix_tracking_flow c))"
    unfolding create_mrtrix_tracking_flow_def by (rule edge_ends_in_flow)
  then show ?thesis by simp
qed

lemma mrtrix_tracking_stage:
  assumes "MRtrix_tracking_config.tracking_mode c = ''Deterministic'' \<or>
           MRtrix_tracking_config.tracking_mode c = ''Probabilistic''"
  shows "map node_name (stages_of (create_mrtrix_tracking_flow c) StreamlineTrack) =
     [mrtrix_tracking_name c]"
proof (cases "MRtrix_tracking_config.tracking_mode c = ''Deterministic''")
  case True
  have n: "''mrtrix_deterministic_tracking'' \<in> set (flow_nodes (create_mrtrix_tracking_flow c))"
    using mrtrix_tracking_in_flow [OF assms] True by (simp add: mrtrix_tracking_name_def)
  show ?thesis
    unfolding stages_of_filter mrtrix_deterministic_objs [OF True]
    using True n
    by (simp add: mrtrix_obj_names mrtrix_obj_interfaces mrtrix_tracking_name_def)
next
  case False
  with assms have p: "MRtrix_tracking_config.tracking_mode c = ''Probabilistic''"
    by simp
  have n: "''mrtrix_probabilistic_tracking'' \<in> set (flow_nodes (create_mrtrix_tracking_flow c))"
    using mrtrix_tracking_in_flow [OF assms] p by (simp add: mrtrix_tracking_name_def)
  show ?thesis
    unfolding stages_of_filter mrtrix_probabilistic_objs [OF p]
    using p n
    by (simp add: mrtrix_obj_names mrtrix_obj_interfaces mrtrix_tracking_name_def)
qed
lemma mrtrix_seeds_stage:
  assumes "MRtrix_tracking_config.tracking_mode c = ''Deterministic'' \<or>
           MRtrix_tracking_config.tracking_mode c = ''Probabilistic''"
  shows "stages_of (create_mrtrix_tracking_flow c) Make_mrtrix_seeds = [mrtrix_seeds_obj]"
proof -
  let ?e = "\<lparr>src = ''inputnode'', src_port = ''wm_mask_resampled'', dst = ''mrtrix_seeds'',
     dst_port = ''WM_file''\<rparr>"
  have "?e \<in> set (flow_edges (create_mrtrix_tracking_flow c))"
  proof (cases "MRtrix_tracking_config.tracking_mode c = ''Deterministic''")
    case True
    show ?thesis
      unfolding mrtrix_deterministic_edges [OF True] by (simp add: mrtrix_seeds_edges_def)
  next
    case False
    with assms have p: "MRtrix_tracking_config.tracking_mode c = ''Probabilistic''"
      by simp
    show ?thesis
      unfolding mrtrix_probabilistic_edges [OF p] by (simp add: mrtrix_seeds_edges_def)
  qed
  then have "dst ?e \<in> set (flow_nodes (create_mrtrix_tracking_flow c))"
    unfolding create_mrtrix_tracking_flow_def by (rule edge_ends_in_flow)
  then have n: "''mrtrix_seeds'' \<in> set (flow_nodes (create_mrtrix_tracking_flow c))"
    by simp
  show ?thesis
  proof (cases "MRtrix_tracking_config.tracking_mode c = ''Deterministic''")
    case True
    show ?thesis
      unfolding stages_of_filter mrtrix_deterministic_objs [OF True]
      using n by (simp add: mrtrix_obj_names mrtrix_obj_interfaces)
  next
    case False
    with assms have p: "MRtrix_tracking_config.tracking_mode c = ''Probabilistic''"
      by simp
    show ?thesis
      unfolding stages_of_filter mrtrix_probabilistic_objs [OF p]
      using n by (simp add: mrtrix_obj_names mrtrix_obj_interfaces)
  qed
qed

lemma mrtrix_edges_into_tracking_src:
  assumes "MRtrix_tracking_config.tracking_mode c = ''Deterministic'' \<or>
           MRtrix_tracking_config.tracking_mode c = ''Probabilistic''"
    and "e \<in> set (edges_into (create_mrtrix_tracking_flow c) (mrtrix_tracking_name c))"
  shows "src e = ''inputnode''"
  using assms(2) unfolding mrtrix_edges_into_tracking [OF assms(1)]
  by (auto simp: mrtrix_act_edges_def mrtrix_seed_edges_def split: if_splits)

lemma mrtrix_mask_edges:
  assumes "MRtrix_tracking_config.tracking_mode c = ''Deterministic'' \<or>
           MRtrix_tracking_config.tracking_mode c = ''Probabilistic''"
  shows "mask_edges (create_mrtrix_tracking_flow c) (mrtrix_tracking_name c) =
     (if MRtrix_tracking_config.use_act c then []
      else [\<lparr>src = ''inputnode'', src_port = ''wm_mask_resampled'',
              dst = mrtrix_tracking_name c, dst_port = ''mask_file''\<rparr>])"
  unfolding mask_edges_def mrtrix_edges_into_tracking [OF assms]
  by (simp add: mrtrix_act_edges_def mrtrix_seed_edges_def)

lemma mrtrix_seed_edges_into:
  assumes "MRtrix_tracking_config.tracking_mode c = ''Deterministic'' \<or>
           MRtrix_tracking_config.tracking_mode c = ''Probabilistic''"
  shows "seed_edges (create_mrtrix_tracking_flow c) (mrtrix_tracking_name c) =
     mrtrix_seed_edges c (mrtrix_tracking_name c)"
  unfolding seed_edges_def mrtrix_edges_into_tracking [OF assms]
  by (simp add: mrtrix_act_edges_def mrtrix_seed_edges_def)

section \<open>Erosion and seeding in the MRtrix workflow\<close>

definition mrtrix_example :: MRtrix_tracking_config where
  "mrtrix_example = construct [Set_tracking_mode ''Deterministic'', Set_use_act False]"

lemma mrtrix_example_fields:
  "MRtrix_tracking_config.tracking_mode mrtrix_example = ''Deterministic''"
  "\<not> MRtrix_tracking_config.use_act mrtrix_example"
  "\<not> seed_from_gmwmi mrtrix_example"
  by (simp_all add: mrtrix_example_def construct_def MRtrix_defaults_def
      set_tracking_mode_def tracking_mode_changed_def set_curvature_eq set_use_act_def
      use_act_changed_def)

lemma mrtrix_example_tracking_name:
  "mrtrix_tracking_name mrtrix_example = ''mrtrix_deterministic_tracking''"
  by (simp add: mrtrix_tracking_name_def mrtrix_example_fields)

text \<open>
  Claim C8 as stated fails: the erosion node is fed by the tissue mask, but its output is
  connected to nothing (the edge to the tracking node's \<^verbatim>\<open>mask_file\<close> is commented out
  in the source), so no path leads from it to the tracking stage, whose mask is the
  uneroded \<^verbatim>\<open>wm_mask_resampled\<close> of \<^verbatim>\<open>inputnode\<close>.
\<close>

theorem erosion_not_consumed_counterexample:
  "(''wm_erode'', ''mrtrix_deterministic_tracking'') \<notin>
     (edge_rel (create_mrtrix_tracking_flow mrtrix_example))\<^sup>+ \<and>
   mask_edges (create_mrtrix_tracking_flow mrtrix_example) ''mrtrix_deterministic_tracking'' =
     [\<lparr>src = ''inputnode'', src_port = ''wm_mask_resampled'',
        dst = ''mrtrix_deterministic_tracking'', dst_port = ''mask_file''\<rparr>]"
proof -
  have "(''wm_erode'', ''mrtrix_deterministic_tracking'') \<notin>
      (edge_rel (create_mrtrix_tracking_flow mrtrix_example))\<^sup>+"
    by (rule no_path_from_sink) (rule mrtrix_edges_from_erode)
  moreover have "mask_edges (create_mrtrix_tracking_flow mrtrix_example)
      (mrtrix_tracking_name mrtrix_example) =
     [\<lparr>src = ''inputnode'', src_port = ''wm_mask_resampled'',
        dst = mrtrix_tracking_name mrtrix_example, dst_port = ''mask_file''\<rparr>]"
    by (simp add: mrtrix_mask_edges mrtrix_example_fields)
  ultimately show ?thesis
    by (simp add: mrtrix_example_tracking_name)
qed

text \<open>
  Claim C8, amended. Every MRtrix workflow has exactly one erosion stage, fed by the
  tissue mask of \<^verbatim>\<open>inputnode\<close>, and no edge leaves that stage. In the two tracking modes
  the workflow has one tracking stage, every input of which comes from \<^verbatim>\<open>inputnode\<close>;
  its \<^verbatim>\<open>mask_file\<close> is the uneroded tissue mask without anatomical constraint and is
  not connected with it.
\<close>

theorem mrtrix_erosion_stage:
  fixes c :: MRtrix_tracking_config
  defines "g \<equiv> create_mrtrix_tracking_flow c"
  defines "t \<equiv> mrtrix_tracking_name c"
  shows "stages_of g Erode = [wm_erode_obj] \<and>
         edges_into g ''wm_erode'' =
           [\<lparr>src = ''inputnode'', src_port = ''wm_mask_resampled'', dst = ''wm_erode'',
              dst_port = ''in_file''\<rparr>] \<and>
         edges_from g ''wm_erode'' = [] \<and>
         (MRtrix_tracking_config.tracking_mode c = ''Deterministic'' \<or>
          MRtrix_tracking_config.tracking_mode c = ''Probabilistic'' \<longrightarrow>
            map node_name (stages_of g StreamlineTrack) = [t] \<and>
            (\<forall>e \<in> set (edges_into g t). src e = ''inputnode'') \<and>
            mask_edges g t =
              (if MRtrix_tracking_config.use_act c then []
               else [\<lparr>src = ''inputnode'', src_port = ''wm_mask_resampled'', dst = t,
                       dst_port = ''mask_file''\<rparr>]))"
proof (intro conjI impI ballI)
  show "stages_of g Erode = [wm_erode_obj]"
    unfolding g_def by (rule mrtrix_erode_stage)
  show "edges_into g ''wm_erode'' =
      [\<lparr>src = ''inputnode'', src_port = ''wm_mask_resampled'', dst = ''wm_erode'',
         dst_port = ''in_file''\<rparr>]"
    unfolding g_def by (simp add: mrtrix_edges_into_erode mrtrix_erode_edge_def)
  show "edges_from g ''wm_erode'' = []"
    unfolding g_def by (rule mrtrix_edges_from_erode)
next
  assume m: "MRtrix_tracking_config.tracking_mode c = ''Deterministic'' \<or>
      MRtrix_tracking_config.tracking_mode c = ''Probabilistic''"
  show "map node_name (stages_of g StreamlineTrack) = [t]"
    unfolding g_def t_def using m by (rule mrtrix_tracking_stage)
  show "mask_edges g t =
      (if MRtrix_tracking_config.use_act c then []
       else [\<lparr>src = ''inputnode'', src_port = ''wm_mask_resampled'', dst = t,
               dst_port = ''mask_file''\<rparr>])"
    unfolding g_def t_def using m by (rule mrtrix_mask_edges)
  fix e
  assume "e \<in> set (edges_into g t)"
  with m show "src e = ''inputnode''"
    unfolding g_def t_def by (rule mrtrix_edges_into_tracking_src)
qed

theorem mrtrix_erosion_stage_witness:
  "MRtrix_tracking_config.tracking_mode mrtrix_example = ''Deterministic'' \<and>
   stages_of (create_mrtrix_tracking_flow mrtrix_example) Erode = [wm_erode_obj] \<and>
   edges_from (create_mrtrix_tracking_flow mrtrix_example) ''wm_erode'' = [] \<and>
   map node_name (stages_of (create_mrtrix_tracking_flow mrtrix_example) StreamlineTrack) =
     [''mrtrix_deterministic_tracking''] \<and>
   map src (mask_edges (create_mrtrix_tracking_flow mrtrix_example)
     ''mrtrix_deterministic_tracking'') = [''inputnode'']"
  using mrtrix_erosion_stage [of mrtrix_example]
  by (simp add: mrtrix_example_fields mrtrix_example_tracking_name)

text \<open>
  Claim C9. No edge leaves the \<^verbatim>\<open>make_mrtrix_seeds\<close> stage of an MRtrix workflow. In the
  two tracking modes that stage exists, and the one edge that reaches a seed input of the
  tracking stage comes from \<^verbatim>\<open>inputnode\<close>: the grey/white interface volume into
  \<^verbatim>\<open>seed_gmwmi\<close> when \<^verbatim>\<open>seed_from_gmwmi\<close> is set, the plain tissue mask into
  \<^verbatim>\<open>seed_file\<close> otherwise.
\<close>

theorem mrtrix_seed_wiring:
  fixes c :: MRtrix_tracking_config
  defines "g \<equiv> create_mrtrix_tracking_flow c"
  defines "t \<equiv> mrtrix_tracking_name c"
  shows "edges_from g ''mrtrix_seeds'' = [] \<and>
         (MRtrix_tracking_config.tracking_mode c = ''Deterministic'' \<or>
          MRtrix_tracking_config.tracking_mode c = ''Probabilistic'' \<longrightarrow>
            stages_of g Make_mrtrix_seeds = [mrtrix_seeds_obj] \<and>
            seed_edges g t =
              [if seed_from_gmwmi c
               then \<lparr>src = ''inputnode'', src_port = ''gmwmi_registered'', dst = t,
                      dst_port = ''seed_gmwmi''\<rparr>
               else \<lparr>src = ''inputnode'', src_port = ''wm_mask_resampled'', dst = t,
                      dst_port = ''seed_file''\<rparr>])"
proof (intro conjI impI)
  show "edges_from g ''mrtrix_seeds'' = []"
    unfolding g_def by (rule mrtrix_edges_from_seeds)
next
  assume m: "MRtrix_tracking_config.tracking_mode c = ''Deterministic'' \<or>
      MRtrix_tracking_config.tracking_mode c = ''Probabilistic''"
  show "stages_of g Make_mrtrix_seeds = [mrtrix_seeds_obj]"
    unfolding g_def using m by (rule mrtrix_seeds_stage)
  show "seed_edges g t =
      [if seed_from_gmwmi c
       then \<lparr>src = ''inputnode'', src_port = ''gmwmi_registered'', dst = t,
              dst_port = ''seed_gmwmi''\<rparr>
       else \<lparr>src = ''inputnode'', src_port = ''wm_mask_resampled'', dst = t,
              dst_port = ''seed_file''\<rparr>]"
    unfolding g_def t_def using m
    by (simp add: mrtrix_seed_edges_into mrtrix_seed_edges_def)
qed

definition mrtrix_interface_example :: MRtrix_tracking_config where
  "mrtrix_interface_example =
     construct [Set_tracking_mode ''Probabilistic'', Set_seed_from_gmwmi True]"

lemma mrtrix_interface_example_fields:
  "MRtrix_tracking_config.tracking_mode mrtrix_interface_example = ''Probabilistic''"
  "seed_from_gmwmi mrtrix_interface_example"
  by (simp_all add: mrtrix_interface_example_def construct_def MRtrix_defaults_def
      set_tracking_mode_def tracking_mode_changed_def set_curvature_eq)

theorem mrtrix_seed_wiring_witness:
  "MRtrix_tracking_config.tracking_mode mrtrix_interface_example = ''Probabilistic'' \<and>
   edges_from (create_mrtrix_tracking_flow mrtrix_interface_example) ''mrtrix_seeds'' = [] \<and>
   stages_of (create_mrtrix_tracking_flow mrtrix_interface_example) Make_mrtrix_seeds =
     [mrtrix_seeds_obj] \<and>
   seed_edges (create_mrtrix_tracking_flow mrtrix_interface_example)
     ''mrtrix_probabilistic_tracking'' =
     [\<lparr>src = ''inputnode'', src_port = ''gmwmi_registered'',
        dst = ''mrtrix_probabilistic_tracking'', dst_port = ''seed_gmwmi''\<rparr>]"
  using mrtrix_seed_wiring [of mrtrix_interface_example]
  by (simp add: mrtrix_interface_example_fields mrtrix_tracking_name_def)

section \<open>Volumes and the array operations the seed generators use\<close>

text \<open>
  A loaded image (\<^verbatim>\<open>nib.load\<close>) is its array and its affine. The array is kept as its
  shape and its elements in row-major order; the elements are numpy scalars of the
  array's dtype, a type \<open>'a\<close> here, ordered as \<^verbatim>\<open>np.unique\<close> sorts them. The arrays the
  generators save hold integers (\<^verbatim>\<open>astype(int)\<close>). The affine carries voxel size and
  origin; only its entries matter here, not their meaning.
\<close>

record 'a volume =
  shape :: "nat list"
  data :: "'a list"
  affine :: "real list"

definition wellformed :: "'a volume \<Rightarrow> bool" where
  "wellformed v \<longleftrightarrow> length (data v) = prod_list (shape v)"

text \<open>
  The arithmetic of numpy's scalars is no part of the tracking module and depends on the
  dtype of the loaded arrays (integers wrap around, floats round). The generators take
  it as a parameter: the product of two scalars as \<^verbatim>\<open>np.multiply\<close> computes it in
  their common dtype, the test \<^verbatim>\<open>x != 0\<close>, and the conversion \<^verbatim>\<open>astype(int)\<close>.
\<close>

record 'a arithmetic =
  multiply :: "'a \<Rightarrow> 'a \<Rightarrow> 'a"
  nonzero :: "'a \<Rightarrow> bool"
  astype_int :: "'a \<Rightarrow> int"

datatype py_error = ValueError | IndexError

text \<open>\<^verbatim>\<open>np.unique\<close>: the distinct elements, ascending.\<close>

definition np_unique :: "'a::linorder list \<Rightarrow> 'a list" where
  "np_unique xs = sort (remdups xs)"

text \<open>
  \<^verbatim>\<open>np.multiply\<close> broadcasts: the shapes are aligned at their last axis, two extents
  agree when they are equal or one of them is 1, and an axis of extent 1 is read at
  index 0 throughout. Shapes that do not agree raise \<^verbatim>\<open>ValueError\<close>.
\<close>

definition broadcast_dim :: "nat \<Rightarrow> nat \<Rightarrow> nat option" where
  "broadcast_dim m n =
     (if m = n then Some m else if m = 1 then Some n else if n = 1 then Some m else None)"

fun broadcast_rev :: "nat list \<Rightarrow> nat list \<Rightarrow> nat list option" where
  "broadcast_rev [] ns = Some ns"
| "broadcast_rev (m # ms) [] = Some (m # ms)"
| "broadcast_rev (m # ms) (n # ns) =
     (case broadcast_dim m n of
        None \<Rightarrow> None
      | Some d \<Rightarrow> map_option ((#) d) (broadcast_rev ms ns))"

definition broadcast_shapes :: "nat list \<Rightarrow> nat list \<Rightarrow> nat list option" where
  "broadcast_shapes s t = map_option rev (broadcast_rev (rev s) (rev t))"

fun indices :: "nat list \<Rightarrow> nat list list" where
  "indices [] = [[]]"
| "indices (n # ns) = concat (map (\<lambda>i. map ((#) i) (indices ns)) [0..<n])"

fun ravel :: "nat list \<Rightarrow> nat list \<Rightarrow> nat" where
  "ravel (n # ns) (i # is) = (if n = 1 then 0 else i) * prod_list ns + ravel ns is"
| "ravel _ _ = 0"

definition element :: "'a volume \<Rightarrow> nat list \<Rightarrow> 'a" where
  "element v idx = data v ! ravel (shape v) (drop (length idx - length (shape v)) idx)"

definition np_multiply ::
  "'a arithmetic \<Rightarrow> 'a volume \<Rightarrow> 'a volume \<Rightarrow> py_error + (nat list \<times> 'a list)" where
  "np_multiply np a b =
     (case broadcast_shapes (shape a) (shape b) of
        None \<Rightarrow> Inl ValueError
      | Some s \<Rightarrow>
          Inr (s, map (\<lambda>idx. multiply np (element a idx) (element b idx)) (indices s)))"

text \<open>
  Assignment through a boolean mask, \<^verbatim>\<open>temp[mask] = v\<close>, on arrays of one shape.
\<close>

definition mask_assign :: "int list \<Rightarrow> bool list \<Rightarrow> int \<Rightarrow> int list" where
  "mask_assign temp msk v = map2 (\<lambda>t m. if m then v else t) temp msk"

text \<open>
  \<^verbatim>\<open>str\<close> of an integer, and the names of the files written. A region file enters as the
  base name \<^verbatim>\<open>split_filename\<close> gives for its path and the image \<^verbatim>\<open>nib.load\<close> reads
  from it; \<^verbatim>\<open>os.path.abspath\<close> puts the working directory before a relative name.
\<close>

definition digit_char :: "nat \<Rightarrow> char" where
  "digit_char d = char_of (48 + d)"

fun digits :: "nat \<Rightarrow> string" where
  "digits n = (if n < 10 then [digit_char n] else digits (n div 10) @ [digit_char (n mod 10)])"

declare digits.simps [simp del]

definition str :: "int \<Rightarrow> string" where
  "str i = (if i < 0 then CHR ''-'' # digits (nat (- i)) else digits (nat i))"

definition abspath :: "string \<Rightarrow> string \<Rightarrow> string" where
  "abspath cwd p = cwd @ ''/'' @ p"

record 'a nifti_file =
  base :: string
  img :: "'a volume"

record 'a make_seedsInputSpec =
  ROI_files :: "'a nifti_file list"
  WM_file :: "'a nifti_file"

section \<open>The per-region seed generator\<close>

text \<open>
  \<^verbatim>\<open>make_seeds\<close> keeps \<^verbatim>\<open>ROI_idx\<close> and \<^verbatim>\<open>base_name\<close> on the interface object.
  \<^verbatim>\<open>_run_interface\<close> overwrites both for every region file; each \<^verbatim>\<open>nib.save\<close> is
  recorded, in order, with the name and the image written. An exception of
  \<^verbatim>\<open>np.multiply\<close> ends the run and leaves what was written before. (The text file
  listing the seed names is left out.)
\<close>

record make_seeds =
  ROI_idx :: "int list"
  base_name :: string

record run =
  self :: make_seeds
  saved :: "(string \<times> int volume) list"
  raised :: "py_error option"

definition seed_name :: "string \<Rightarrow> int \<Rightarrow> string" where
  "seed_name b i = b @ ''_seed_'' @ str i @ ''.nii.gz''"

text \<open>The loop \<^verbatim>\<open>for i in self.ROI_idx\<close>; \<^verbatim>\<open>temp\<close> lives across its rounds.\<close>

fun save_seeds ::
  "string \<Rightarrow> string \<Rightarrow> nat list \<Rightarrow> int list \<Rightarrow> real list \<Rightarrow> int list \<Rightarrow> int list \<Rightarrow>
   (string \<times> int volume) list" where
  "save_seeds cwd b s border ROI_affine temp [] = []"
| "save_seeds cwd b s border ROI_affine temp (i # is) =
     (let temp1 = mask_assign temp (map (\<lambda>x. x = i) border) 1;
          temp2 = mask_assign temp1 (map (\<lambda>x. x \<noteq> i) border) 0;
          new_image = \<lparr>shape = s, data = temp2, affine = ROI_affine\<rparr>;
          save_as = abspath cwd (seed_name b i)
      in (save_as, new_image) # save_seeds cwd b s border ROI_affine temp2 is)"

text \<open>The loop \<^verbatim>\<open>for ROI_file in self.inputs.ROI_files\<close>.\<close>

fun make_seeds_loop ::
  "'a::linorder arithmetic \<Rightarrow> string \<Rightarrow> 'a volume \<Rightarrow> make_seeds \<Rightarrow>
   (string \<times> int volume) list \<Rightarrow> 'a nifti_file list \<Rightarrow> run" where
  "make_seeds_loop np cwd WM_vol slf out [] = \<lparr>self = slf, saved = out, raised = None\<rparr>"
| "make_seeds_loop np cwd WM_vol slf out (ROI_file # rest) =
     (let ROI_vol = img ROI_file;
          ROI_data = data ROI_vol;
          tmp_data = map (astype_int np) (np_unique (filter (nonzero np) ROI_data));
          slf1 = slf\<lparr>ROI_idx := np_unique tmp_data\<rparr>
      in case np_multiply np ROI_vol WM_vol of
           Inl e \<Rightarrow> \<lparr>self = slf1, saved = out, raised = Some e\<rparr>
         | Inr (s, product) \<Rightarrow>
             (let border = map (astype_int np) product;
                  temp = border;
                  slf2 = slf1\<lparr>base_name := base ROI_file\<rparr>
              in make_seeds_loop np cwd WM_vol slf2
                   (out @ save_seeds cwd (base_name slf2) s border (affine ROI_vol) temp
                            (ROI_idx slf2))
                   rest))"

definition make_seeds_init :: make_seeds where
  "make_seeds_init = \<lparr>ROI_idx = [], base_name = ''''\<rparr>"

definition make_seeds_run_interface ::
  "'a::linorder arithmetic \<Rightarrow> string \<Rightarrow> 'a make_seedsInputSpec \<Rightarrow> run" where
  "make_seeds_run_interface np cwd inputs =
     make_seeds_loop np cwd (img (WM_file inputs)) make_seeds_init [] (ROI_files inputs)"

definition gen_outputfilelist :: "string \<Rightarrow> make_seeds \<Rightarrow> string list" where
  "gen_outputfilelist cwd slf =
     map (\<lambda>i. abspath cwd (seed_name (base_name slf) i)) (ROI_idx slf)"

definition make_seeds_list_outputs :: "string \<Rightarrow> make_seeds \<Rightarrow> string list" where
  "make_seeds_list_outputs cwd slf = gen_outputfilelist cwd slf"

section \<open>The merged seed generator\<close>

definition seeds_name :: "string \<Rightarrow> string" where
  "seeds_name b = b @ ''_seeds.nii.gz''"

fun make_mrtrix_seeds_loop ::
  "'a::linorder arithmetic \<Rightarrow> string \<Rightarrow> 'a volume \<Rightarrow> make_seeds \<Rightarrow>
   (string \<times> int volume) list \<Rightarrow> 'a nifti_file list \<Rightarrow> run" where
  "make_mrtrix_seeds_loop np cwd WM_vol slf out [] = \<lparr>self = slf, saved = out, raised = None\<rparr>"
| "make_mrtrix_seeds_loop np cwd WM_vol slf out (ROI_file # rest) =
     (let ROI_vol = img ROI_file;
          ROI_data = data ROI_vol;
          tmp_data = map (astype_int np) (np_unique (filter (nonzero np) ROI_data));
          slf1 = slf\<lparr>ROI_idx := np_unique tmp_data\<rparr>
      in case np_multiply np ROI_vol WM_vol of
           Inl e \<Rightarrow> \<lparr>self = slf1, saved = out, raised = Some e\<rparr>
         | Inr (s, product) \<Rightarrow>
             (let border = map (astype_int np) product;
                  slf2 = slf1\<lparr>base_name := base ROI_file\<rparr>;
                  new_image = \<lparr>shape = s, data = border, affine = affine ROI_vol\<rparr>;
                  save_as = abspath cwd (seeds_name (base_name slf2))
              in make_mrtrix_seeds_loop np cwd WM_vol slf2 (out @ [(save_as, new_image)]) rest))"

definition make_mrtrix_seeds_run_interface ::
  "'a::linorder arithmetic \<Rightarrow> string \<Rightarrow> 'a make_seedsInputSpec \<Rightarrow> run" where
  "make_mrtrix_seeds_run_interface np cwd inputs =
     make_mrtrix_seeds_loop np cwd (img (WM_file inputs)) make_seeds_init []
       (ROI_files inputs)"

definition make_mrtrix_seeds_list_outputs :: "string \<Rightarrow> make_seeds \<Rightarrow> string" where
  "make_mrtrix_seeds_list_outputs cwd slf = abspath cwd (seeds_name (base_name slf))"
section \<open>Facts about the array operations\<close>

lemma np_unique_sorted: "sorted (np_unique xs)"
  and np_unique_distinct: "distinct (np_unique xs)"
  and np_unique_set: "set (np_unique xs) = set xs"
  by (simp_all add: np_unique_def)

lemma np_unique_strict: "sorted_wrt (<) (np_unique xs)"
  by (simp add: strict_sorted_iff np_unique_sorted np_unique_distinct)

lemma np_unique_idem: "np_unique (np_unique xs) = np_unique xs"
  by (simp add: np_unique_def distinct_remdups_id sort_key_id_if_sorted)

lemma broadcast_rev_same: "broadcast_rev s s = Some s"
  by (induction s) (simp_all add: broadcast_dim_def)

lemma broadcast_shapes_same: "broadcast_shapes s s = Some s"
  by (simp add: broadcast_shapes_def broadcast_rev_same)

lemma indices_length: "idx \<in> set (indices s) \<Longrightarrow> length idx = length s"
  by (induction s arbitrary: idx) auto

lemma concat_blocks:
  "concat (map (\<lambda>i. map (\<lambda>k. k + i * p) [0..<p]) [0..<n]) = [0..<n * p]"
proof (induction n)
  case 0
  show ?case by simp
next
  case (Suc n)
  have "concat (map (\<lambda>i. map (\<lambda>k. k + i * p) [0..<p]) [0..<Suc n]) =
      concat (map (\<lambda>i. map (\<lambda>k. k + i * p) [0..<p]) [0..<n]) @ map (\<lambda>k. k + n * p) [0..<p]"
    by simp
  also have "\<dots> = [0..<n * p] @ [n * p..<p + n * p]"
    by (simp only: Suc.IH) (simp only: map_add_upt)
  also have "\<dots> = [0..<n * p] @ [n * p..<n * p + p]"
    by (simp only: add.commute [of p])
  also have "\<dots> = [0..<n * p + p]"
    by (simp only: upt_add_eq_append [OF le0])
  also have "n * p + p = Suc n * p"
    by simp
  finally show ?case .
qed

lemma ravel_indices: "map (ravel s) (indices s) = [0..<prod_list s]"
proof (induction s)
  case Nil
  show ?case by simp
next
  case (Cons n ns)
  have "map (ravel (n # ns)) (indices (n # ns)) =
      concat (map (\<lambda>i. map (\<lambda>k. k + (if n = 1 then 0 else i) * prod_list ns)
        (map (ravel ns) (indices ns))) [0..<n])"
    by (simp add: map_concat comp_def add.commute)
  also have "\<dots> = concat (map (\<lambda>i. map (\<lambda>k. k + i * prod_list ns) [0..<prod_list ns]) [0..<n])"
    unfolding Cons.IH
    by (rule arg_cong [where f = concat], rule map_cong) auto
  also have "\<dots> = [0..<n * prod_list ns]"
    by (rule concat_blocks)
  finally show ?case by simp
qed

lemma element_own_index:
  assumes "idx \<in> set (indices (shape v))"
  shows "element v idx = data v ! ravel (shape v) idx"
  using indices_length [OF assms] by (simp add: element_def)

lemma map2_nth_upt:
  assumes "length xs = n" and "length ys = n"
  shows "map (\<lambda>k. f (xs ! k) (ys ! k)) [0..<n] = map2 f xs ys"
  using assms by (intro nth_equalityI) simp_all

text \<open>On one shape \<^verbatim>\<open>np.multiply\<close> multiplies element by element.\<close>

lemma np_multiply_same_shape:
  assumes "shape a = shape b" and "wellformed a" and "wellformed b"
  shows "np_multiply np a b = Inr (shape b, map2 (multiply np) (data a) (data b))"
proof -
  let ?s = "shape b"
  have "map (\<lambda>idx. multiply np (element a idx) (element b idx)) (indices ?s) =
      map (\<lambda>idx. multiply np (data a ! ravel ?s idx) (data b ! ravel ?s idx)) (indices ?s)"
    using assms(1) by (intro map_cong refl) (simp add: element_own_index)
  also have "\<dots> = map (\<lambda>k. multiply np (data a ! k) (data b ! k)) (map (ravel ?s) (indices ?s))"
    by (simp add: comp_def)
  also have "\<dots> = map (\<lambda>k. multiply np (data a ! k) (data b ! k)) [0..<prod_list ?s]"
    by (simp only: ravel_indices)
  also have "\<dots> = map2 (multiply np) (data a) (data b)"
    using assms by (intro map2_nth_upt) (simp_all add: wellformed_def)
  finally show ?thesis
    using assms(1) by (simp add: np_multiply_def broadcast_shapes_same)
qed

lemma element_affine: "element (v\<lparr>affine := x\<rparr>) idx = element v idx"
  by (simp add: element_def)

lemma np_multiply_affine:
  "np_multiply np a (b\<lparr>affine := x\<rparr>) = np_multiply np a b"
  "np_multiply np (a\<lparr>affine := x\<rparr>) b = np_multiply np a b"
  by (simp_all add: np_multiply_def element_affine cong: option.case_cong)

lemma np_multiply_raises:
  "np_multiply np a b = Inl e \<longleftrightarrow> broadcast_shapes (shape a) (shape b) = None \<and> e = ValueError"
  by (cases "broadcast_shapes (shape a) (shape b)") (auto simp: np_multiply_def)

text \<open>The two masked assignments of one round overwrite every element.\<close>

lemma mask_round:
  assumes "length temp = length border"
  shows "mask_assign (mask_assign temp (map (\<lambda>x. x = i) border) 1)
           (map (\<lambda>x. x \<noteq> i) border) 0 =
         map (\<lambda>x. if x = i then 1 else 0) border"
  using assms by (intro nth_equalityI) (simp_all add: mask_assign_def)

lemma save_seeds_eq:
  assumes "length temp = length border"
  shows "save_seeds cwd b s border aff temp labels =
     map (\<lambda>i. (abspath cwd (seed_name b i),
                \<lparr>shape = s, data = map (\<lambda>x. if x = i then 1 else 0) border, affine = aff\<rparr>))
       labels"
  using assms
proof (induction labels arbitrary: temp)
  case Nil
  show ?case by simp
next
  case (Cons i labels)
  have "length (map (\<lambda>x. if x = i then 1 else (0::int)) border) = length border"
    by simp
  then show ?case
    using Cons.prems by (simp add: Let_def mask_round Cons.IH)
qed
section \<open>What the per-region generator saves\<close>

text \<open>
  The labels of a region volume, and the seed volume of one label: 1 where the product
  of region value and mask value, converted to an integer, is the label, and 0
  elsewhere, on the region volume's affine.
\<close>

definition region_labels :: "'a::linorder arithmetic \<Rightarrow> 'a volume \<Rightarrow> int list" where
  "region_labels np v =
     np_unique (map (astype_int np) (np_unique (filter (nonzero np) (data v))))"

definition seed_volume :: "'a arithmetic \<Rightarrow> 'a volume \<Rightarrow> 'a volume \<Rightarrow> int \<Rightarrow> int volume" where
  "seed_volume np ROI_vol WM_vol i =
     \<lparr>shape = shape WM_vol,
      data = map2 (\<lambda>x w. if astype_int np (multiply np x w) = i then 1 else 0)
        (data ROI_vol) (data WM_vol),
      affine = affine ROI_vol\<rparr>"

definition region_seeds ::
  "'a::linorder arithmetic \<Rightarrow> string \<Rightarrow> 'a volume \<Rightarrow> 'a nifti_file \<Rightarrow>
   (string \<times> int volume) list" where
  "region_seeds np cwd WM_vol r =
     map (\<lambda>i. (abspath cwd (seed_name (base r) i), seed_volume np (img r) WM_vol i))
       (region_labels np (img r))"

definition same_grid :: "'a volume \<Rightarrow> 'a nifti_file \<Rightarrow> bool" where
  "same_grid WM_vol r \<longleftrightarrow> shape (img r) = shape WM_vol \<and> wellformed (img r)"

lemma region_labels_strict: "sorted_wrt (<) (region_labels np v)"
  by (simp add: region_labels_def np_unique_strict)

lemma region_labels_set:
  "set (region_labels np v) = astype_int np ` {x \<in> set (data v). nonzero np x}"
  by (auto simp: region_labels_def np_unique_set)

lemma border_seed:
  "map (\<lambda>x. if x = i then 1 else 0) (map (astype_int np) (map2 (multiply np) xs ys)) =
   map2 (\<lambda>x w. if astype_int np (multiply np x w) = i then 1 else (0::int)) xs ys"
  by (induction xs ys rule: list_induct2') simp_all

lemma make_seeds_step:
  assumes "wellformed WM_vol" and "same_grid WM_vol r"
  shows "make_seeds_loop np cwd WM_vol slf out (r # rest) =
     make_seeds_loop np cwd WM_vol \<lparr>ROI_idx = region_labels np (img r), base_name = base r\<rparr>
       (out @ region_seeds np cwd WM_vol r) rest"
proof -
  let ?border = "map (astype_int np) (map2 (multiply np) (data (img r)) (data WM_vol))"
  have m: "np_multiply np (img r) WM_vol =
      Inr (shape WM_vol, map2 (multiply np) (data (img r)) (data WM_vol))"
    using assms by (simp add: same_grid_def np_multiply_same_shape)
  have s: "save_seeds cwd (base r) (shape WM_vol) ?border (affine (img r)) ?border
      (region_labels np (img r)) = region_seeds np cwd WM_vol r"
    unfolding save_seeds_eq [OF refl] border_seed region_seeds_def seed_volume_def
    by (rule refl)
  have u: "slf\<lparr>ROI_idx := region_labels np (img r), base_name := base r\<rparr> =
      \<lparr>ROI_idx = region_labels np (img r), base_name = base r\<rparr>"
    by (cases slf) simp
  show ?thesis
    by (simp add: Let_def m region_labels_def [symmetric] s [simplified] u)
qed

declare make_seeds_loop.simps [simp del]

lemma make_seeds_loop_same_grid:
  assumes "wellformed WM_vol" and "\<forall>r \<in> set rs. same_grid WM_vol r"
  shows "make_seeds_loop np cwd WM_vol slf out rs =
     \<lparr>self = (if rs = [] then slf
               else \<lparr>ROI_idx = region_labels np (img (last rs)), base_name = base (last rs)\<rparr>),
      saved = out @ concat (map (region_seeds np cwd WM_vol) rs),
      raised = None\<rparr>"
  using assms(2)
proof (induction rs arbitrary: slf out)
  case Nil
  show ?case by (simp add: make_seeds_loop.simps)
next
  case (Cons r rs)
  from Cons.prems have g: "same_grid WM_vol r" and rest: "\<forall>r \<in> set rs. same_grid WM_vol r"
    by simp_all
  show ?case
    unfolding make_seeds_step [OF assms(1) g] Cons.IH [OF rest] by simp
qed

text \<open>The run on one region volume and a mask of its shape.\<close>

lemma make_seeds_single:
  assumes "shape (img r) = shape (img WM)" and "wellformed (img r)" and "wellformed (img WM)"
  shows "make_seeds_run_interface np cwd \<lparr>ROI_files = [r], WM_file = WM\<rparr> =
     \<lparr>self = \<lparr>ROI_idx = region_labels np (img r), base_name = base r\<rparr>,
      saved = region_seeds np cwd (img WM) r, raised = None\<rparr>"
proof -
  have g: "\<forall>x \<in> set [r]. same_grid (img WM) x"
    using assms by (simp add: same_grid_def)
  show ?thesis
    unfolding make_seeds_run_interface_def
    using make_seeds_loop_same_grid [OF assms(3) g, of np cwd make_seeds_init "[]"]
    by simp
qed
section \<open>Per-region seed volumes\<close>

text \<open>
  The runs on concrete volumes below are in the arithmetic of float arrays on values it
  multiplies without rounding (small integers and halves): the product is the exact one,
  and \<^verbatim>\<open>astype(int)\<close> cuts the fraction off, towards zero.
\<close>

definition exact_arithmetic :: "real arithmetic" where
  "exact_arithmetic =
     \<lparr>multiply = (*), nonzero = (\<lambda>x. x \<noteq> 0),
      astype_int = (\<lambda>x. if x < 0 then \<lceil>x\<rceil> else \<lfloor>x\<rfloor>)\<rparr>"

definition fractional_roi :: "real nifti_file" where
  "fractional_roi = \<lparr>base = ''roi'', img = \<lparr>shape = [2], data = [3, 1], affine = [1, 1, 1]\<rparr>\<rparr>"

definition fractional_mask :: "real nifti_file" where
  "fractional_mask =
     \<lparr>base = ''wm'', img = \<lparr>shape = [2], data = [1 / 2, 1], affine = [1, 1, 1]\<rparr>\<rparr>"

text \<open>
  Claim C4 at the region values 3 and 1 under the mask values 1/2 and 1. The generator
  is to create its seeds by intersecting the regions with the mask: the seed volume of a
  label is 1 exactly where the product of region value and mask value is that label. It
  compares the label with the product converted to an integer instead. In every
  arithmetic that multiplies 3 by 1/2 to 3/2 and converts 3/2 to 1, as that of float
  arrays does, the labels are 1 and 3, the seed volume of label 1 is 1 at both voxels,
  also at the first, a voxel of region 3 where the product is 3/2 and not 1, and the
  seed volume of label 3 is empty.
\<close>

theorem converted_product_in_seed:
  fixes np :: "real arithmetic"
  assumes "multiply np 3 (1 / 2) = 3 / 2" and "multiply np 1 1 = 1"
    and "astype_int np (3 / 2) = 1" and "astype_int np 1 = 1" and "astype_int np 3 = 3"
    and "nonzero np 3" and "nonzero np 1"
  shows "make_seeds_run_interface np ''/tmp''
       \<lparr>ROI_files = [fractional_roi], WM_file = fractional_mask\<rparr> =
     \<lparr>self = \<lparr>ROI_idx = [1, 3], base_name = ''roi''\<rparr>,
      saved =
        [(abspath ''/tmp'' (seed_name ''roi'' 1),
          \<lparr>shape = [2], data = [1, 1], affine = [1, 1, 1]\<rparr>),
         (abspath ''/tmp'' (seed_name ''roi'' 3),
          \<lparr>shape = [2], data = [0, 0], affine = [1, 1, 1]\<rparr>)],
      raised = None\<rparr> \<and>
     data (img fractional_roi) ! 0 = 3 \<and>
     multiply np (data (img fractional_roi) ! 0) (data (img fractional_mask) ! 0) = 3 / 2"
proof -
  have l: "region_labels np (img fractional_roi) = [1, 3]"
    using assms by (simp add: region_labels_def fractional_roi_def np_unique_def)
  have "make_seeds_run_interface np ''/tmp''
      \<lparr>ROI_files = [fractional_roi], WM_file = fractional_mask\<rparr> =
     \<lparr>self = \<lparr>ROI_idx = region_labels np (img fractional_roi), base_name = base fractional_roi\<rparr>,
      saved = region_seeds np ''/tmp'' (img fractional_mask) fractional_roi, raised = None\<rparr>"
    by (rule make_seeds_single)
      (simp_all add: fractional_roi_def fractional_mask_def wellformed_def)
  then show ?thesis
    unfolding region_seeds_def l
    using assms by (simp add: fractional_roi_def fractional_mask_def seed_volume_def)
qed

theorem converted_product_in_seed_witness:
  "multiply exact_arithmetic 3 (1 / 2) = 3 / 2 \<and> multiply exact_arithmetic 1 1 = 1 \<and>
   astype_int exact_arithmetic (3 / 2) = 1 \<and> astype_int exact_arithmetic 1 = 1 \<and>
   astype_int exact_arithmetic 3 = 3 \<and> nonzero exact_arithmetic 3 \<and>
   nonzero exact_arithmetic 1 \<and>
   map (data \<circ> snd) (saved (make_seeds_run_interface exact_arithmetic ''/tmp''
       \<lparr>ROI_files = [fractional_roi], WM_file = fractional_mask\<rparr>)) = [[1, 1], [0, 0]]"
proof -
  have a: "multiply exact_arithmetic 3 (1 / 2) = 3 / 2" "multiply exact_arithmetic 1 1 = 1"
    "astype_int exact_arithmetic (3 / 2) = 1" "astype_int exact_arithmetic 1 = 1"
    "astype_int exact_arithmetic 3 = 3" "nonzero exact_arithmetic 3"
    "nonzero exact_arithmetic 1"
    by (simp_all add: exact_arithmetic_def)
  from converted_product_in_seed [OF a] a show ?thesis
    by simp
qed
section \<open>Seed file names tell base name and label apart\<close>

definition digit_value :: "string \<Rightarrow> nat" where
  "digit_value s = foldl (\<lambda>a c. 10 * a + (of_char c - 48)) 0 s"

lemma digit_char_code:
  assumes "d < 10"
  shows "(of_char (digit_char d) :: nat) = 48 + d"
proof -
  have "48 + d < 256" using assms by simp
  then show ?thesis
    by (simp add: digit_char_def of_char_of)
qed

lemma digit_char_value:
  assumes "d < 10"
  shows "of_char (digit_char d) - 48 = d"
  by (simp add: digit_char_code [OF assms])

lemma digit_value_digits: "digit_value (digits n) = n"
proof (induction n rule: digits.induct)
  case (1 n)
  show ?case
  proof (cases "n < 10")
    case True
    then show ?thesis
      by (subst digits.simps) (simp add: digit_value_def digit_char_value)
  next
    case False
    have m: "n mod 10 < 10" by simp
    from False "1.IH" have "digit_value (digits (n div 10)) = n div 10"
      by simp
    then have "digit_value (digits (n div 10) @ [digit_char (n mod 10)]) =
        10 * (n div 10) + n mod 10"
      by (simp add: digit_value_def digit_char_value [OF m])
    with False show ?thesis
      by (subst digits.simps) simp
  qed
qed

lemma digits_inject: "digits m = digits n \<Longrightarrow> m = n"
  by (metis digit_value_digits)

lemma digit_char_plain:
  assumes "d < 10"
  shows "digit_char d \<noteq> CHR ''_''" and "digit_char d \<noteq> CHR ''-''"
    and "CHR ''_'' \<noteq> digit_char d" and "CHR ''-'' \<noteq> digit_char d"
proof -
  have c: "(of_char (digit_char d) :: nat) = 48 + d"
    by (rule digit_char_code [OF assms])
  show u: "digit_char d \<noteq> CHR ''_''"
  proof
    assume a: "digit_char d = CHR ''_''"
    from c have "(of_char (CHR ''_'') :: nat) = 48 + d"
      unfolding a .
    with assms show False by simp
  qed
  show m: "digit_char d \<noteq> CHR ''-''"
  proof
    assume a: "digit_char d = CHR ''-''"
    from c have "(of_char (CHR ''-'') :: nat) = 48 + d"
      unfolding a .
    with assms show False by simp
  qed
  from u show "CHR ''_'' \<noteq> digit_char d" by (rule not_sym)
  from m show "CHR ''-'' \<noteq> digit_char d" by (rule not_sym)
qed

lemma digits_plain: "CHR ''_'' \<notin> set (digits n) \<and> CHR ''-'' \<notin> set (digits n) \<and> digits n \<noteq> []"
proof (induction n rule: digits.induct)
  case (1 n)
  show ?case
  proof (cases "n < 10")
    case True
    then show ?thesis
      by (subst (1 2 3) digits.simps) (simp add: digit_char_plain)
  next
    case False
    have m: "n mod 10 < 10" by simp
    from False "1.IH" show ?thesis
      by (subst (1 2 3) digits.simps) (simp add: digit_char_plain [OF m])
  qed
qed

lemma str_inject:
  assumes "str i = str j"
  shows "i = j"
proof -
  have neg: "hd (digits n) \<noteq> CHR ''-''" for n
    using digits_plain [of n] by (cases "digits n") auto
  consider (nn) "i < 0" "j < 0" | (np) "i < 0" "\<not> j < 0" | (pn) "\<not> i < 0" "j < 0"
    | (pp) "\<not> i < 0" "\<not> j < 0"
    by blast
  then show ?thesis
  proof cases
    case nn
    with assms have "nat (- i) = nat (- j)"
      by (simp add: str_def digits_inject)
    with nn show ?thesis by simp
  next
    case np
    with assms have "CHR ''-'' # digits (nat (- i)) = digits (nat j)"
      by (simp add: str_def)
    then have "hd (digits (nat j)) = CHR ''-''"
      by (metis list.sel(1))
    with neg show ?thesis by blast
  next
    case pn
    with assms have "digits (nat i) = CHR ''-'' # digits (nat (- j))"
      by (simp add: str_def)
    then have "hd (digits (nat i)) = CHR ''-''"
      by (metis list.sel(1))
    with neg show ?thesis by blast
  next
    case pp
    with assms have "nat i = nat j"
      by (simp add: str_def digits_inject)
    with pp show ?thesis by simp
  qed
qed

lemma str_plain: "CHR ''_'' \<notin> set (str i)"
  using digits_plain by (simp add: str_def)

lemma split_at_first:
  assumes "c \<notin> set a" and "c \<notin> set a'" and "a @ c # x = a' @ c # x'"
  shows "a = a' \<and> x = x'"
  using assms
proof (induction a arbitrary: a')
  case Nil
  then show ?case by (cases a') auto
next
  case (Cons y ys)
  then show ?case by (cases a') auto
qed

lemma split_at_last:
  assumes "c \<notin> set s" and "c \<notin> set s'" and "u @ c # s = u' @ c # s'"
  shows "u = u' \<and> s = s'"
proof -
  from assms(3) have "rev (u @ c # s) = rev (u' @ c # s')"
    by simp
  then have "rev s @ c # rev u = rev s' @ c # rev u'"
    by simp
  with assms(1,2) have "rev s = rev s' \<and> rev u = rev u'"
    by (intro split_at_first [of c]) simp_all
  then show ?thesis by simp
qed

lemma seed_name_inject:
  assumes "seed_name b i = seed_name b' i'"
  shows "b = b' \<and> i = i'"
proof -
  from assms have "(b @ ''_seed'') @ CHR ''_'' # str i = (b' @ ''_seed'') @ CHR ''_'' # str i'"
    by (simp add: seed_name_def)
  then have "b @ ''_seed'' = b' @ ''_seed'' \<and> str i = str i'"
    by (intro split_at_last [of "CHR ''_''"]) (simp_all add: str_plain)
  then show ?thesis
    by (simp add: str_inject)
qed

lemma abspath_inject: "abspath cwd p = abspath cwd p' \<longleftrightarrow> p = p'"
  by (simp add: abspath_def)
section \<open>The declared outputs of the per-region generator\<close>

definition seed_names :: "'a::linorder arithmetic \<Rightarrow> string \<Rightarrow> 'a nifti_file \<Rightarrow> string list" where
  "seed_names np cwd r = map (\<lambda>i. abspath cwd (seed_name (base r) i)) (region_labels np (img r))"

lemma region_seeds_names: "map fst (region_seeds np cwd WM_vol r) = seed_names np cwd r"
  by (simp add: region_seeds_def seed_names_def comp_def)

lemma seed_names_disjoint:
  assumes "p \<in> set (seed_names np cwd x)" and "p \<in> set (seed_names np cwd r)"
  shows "base x = base r"
proof -
  from assms(1) obtain i where "p = abspath cwd (seed_name (base x) i)"
    by (auto simp: seed_names_def)
  moreover from assms(2) obtain j where "p = abspath cwd (seed_name (base r) j)"
    by (auto simp: seed_names_def)
  ultimately have "seed_name (base x) i = seed_name (base r) j"
    by (simp add: abspath_inject)
  then show ?thesis
    by (simp add: seed_name_inject)
qed

text \<open>
  Claim C10. When the per-region generator runs over several region volumes (all on the
  shape of the mask, so that the run reaches its end), the output list it declares is
  made from the last region volume alone, its base name and its labels, while the seed
  volumes of every region volume are saved. A seed file of an earlier region volume with
  another base name is therefore saved and missing from the declared output.
\<close>

theorem declared_outputs_from_last:
  fixes np :: "'a::linorder arithmetic" and rs :: "'a nifti_file list" and r :: "'a nifti_file"
    and WM :: "'a nifti_file" and cwd :: string
  defines "res \<equiv> make_seeds_run_interface np cwd \<lparr>ROI_files = rs @ [r], WM_file = WM\<rparr>"
  defines "outputs \<equiv> make_seeds_list_outputs cwd (self res)"
  assumes wf: "wellformed (img WM)"
    and grid: "\<forall>x \<in> set (rs @ [r]). same_grid (img WM) x"
  shows "raised res = None \<and>
         outputs = map (\<lambda>i. abspath cwd (seed_name (base r) i)) (region_labels np (img r)) \<and>
         map fst (saved res) = concat (map (seed_names np cwd) (rs @ [r])) \<and>
         (\<forall>x \<in> set rs. \<forall>p \<in> set (seed_names np cwd x).
            p \<in> fst ` set (saved res) \<and> (base x \<noteq> base r \<longrightarrow> p \<notin> set outputs))"
proof -
  have res: "res =
      \<lparr>self = \<lparr>ROI_idx = region_labels np (img r), base_name = base r\<rparr>,
       saved = concat (map (region_seeds np cwd (img WM)) (rs @ [r])),
       raised = None\<rparr>"
    unfolding res_def make_seeds_run_interface_def
    using make_seeds_loop_same_grid [OF wf grid, of np cwd make_seeds_init "[]"]
    by simp
  have out: "outputs = seed_names np cwd r"
    unfolding outputs_def res
    by (simp add: make_seeds_list_outputs_def gen_outputfilelist_def seed_names_def)
  have names: "map fst (saved res) = concat (map (seed_names np cwd) (rs @ [r]))"
    unfolding res by (simp add: map_concat comp_def region_seeds_names)
  have early: "p \<in> fst ` set (saved res) \<and> (base x \<noteq> base r \<longrightarrow> p \<notin> set outputs)"
    if x: "x \<in> set rs" and p: "p \<in> set (seed_names np cwd x)" for x p
  proof
    have "p \<in> set (concat (map (seed_names np cwd) (rs @ [r])))"
      using x p by auto
    then have "p \<in> set (map fst (saved res))"
      by (simp only: names)
    then show "p \<in> fst ` set (saved res)"
      by simp
    show "base x \<noteq> base r \<longrightarrow> p \<notin> set outputs"
      unfolding out using seed_names_disjoint [OF p] by blast
  qed
  have "raised res = None"
    unfolding res by simp
  with out names early show ?thesis
    by (simp add: seed_names_def)
qed

definition first_roi :: "real nifti_file" where
  "first_roi =
     \<lparr>base = ''left'', img = \<lparr>shape = [2, 2], data = [1, 2, 0, 2], affine = [1, 1, 1]\<rparr>\<rparr>"

definition last_roi :: "real nifti_file" where
  "last_roi =
     \<lparr>base = ''right'', img = \<lparr>shape = [2, 2], data = [0, 5, 5, 0], affine = [1, 1, 1]\<rparr>\<rparr>"

definition shared_mask :: "real nifti_file" where
  "shared_mask =
     \<lparr>base = ''wm'', img = \<lparr>shape = [2, 2], data = [1, 1, 0, 1], affine = [1, 1, 1]\<rparr>\<rparr>"

theorem declared_outputs_from_last_witness:
  "wellformed (img shared_mask) \<and>
   same_grid (img shared_mask) first_roi \<and> same_grid (img shared_mask) last_roi \<and>
   make_seeds_list_outputs ''/tmp''
     (self (make_seeds_run_interface exact_arithmetic ''/tmp''
        \<lparr>ROI_files = [first_roi] @ [last_roi], WM_file = shared_mask\<rparr>)) =
     [abspath ''/tmp'' (seed_name ''right'' 5)] \<and>
   map fst (saved (make_seeds_run_interface exact_arithmetic ''/tmp''
        \<lparr>ROI_files = [first_roi] @ [last_roi], WM_file = shared_mask\<rparr>)) =
     [abspath ''/tmp'' (seed_name ''left'' 1), abspath ''/tmp'' (seed_name ''left'' 2),
      abspath ''/tmp'' (seed_name ''right'' 5)]"
proof -
  have w: "wellformed (img shared_mask)"
    by (simp add: shared_mask_def wellformed_def)
  have g: "same_grid (img shared_mask) first_roi" "same_grid (img shared_mask) last_roi"
    by (simp_all add: same_grid_def shared_mask_def first_roi_def last_roi_def wellformed_def)
  then have a: "\<forall>x \<in> set ([first_roi] @ [last_roi]). same_grid (img shared_mask) x"
    by simp
  have l: "region_labels exact_arithmetic (img first_roi) = [1, 2]" "region_labels exact_arithmetic (img last_roi) = [5]"
    by (simp_all add: region_labels_def first_roi_def last_roi_def np_unique_def
        exact_arithmetic_def)
  have b: "base first_roi = ''left''" "base last_roi = ''right''"
    by (simp_all add: first_roi_def last_roi_def)
  from declared_outputs_from_last [OF w a, of exact_arithmetic "''/tmp''"] w g show ?thesis
    by (simp add: seed_names_def l b)
qed

section \<open>The merged seed volume\<close>

text \<open>The run on one region volume and a mask of its shape.\<close>

lemma make_mrtrix_seeds_single:
  assumes "shape (img r) = shape (img WM)" and "wellformed (img r)" and "wellformed (img WM)"
  shows "make_mrtrix_seeds_run_interface np cwd \<lparr>ROI_files = [r], WM_file = WM\<rparr> =
     \<lparr>self = \<lparr>ROI_idx = region_labels np (img r), base_name = base r\<rparr>,
      saved = [(abspath cwd (seeds_name (base r)),
                \<lparr>shape = shape (img WM),
                 data = map (astype_int np) (map2 (multiply np) (data (img r)) (data (img WM))),
                 affine = affine (img r)\<rparr>)],
      raised = None\<rparr>"
proof -
  have m: "np_multiply np (img r) (img WM) =
      Inr (shape (img WM), map2 (multiply np) (data (img r)) (data (img WM)))"
    using assms by (rule np_multiply_same_shape)
  show ?thesis
    by (simp add: make_mrtrix_seeds_run_interface_def make_seeds_init_def Let_def m
        region_labels_def)
qed

definition three_roi :: "real nifti_file" where
  "three_roi = \<lparr>base = ''roi'', img = \<lparr>shape = [2], data = [3, 1], affine = [1, 1, 1]\<rparr>\<rparr>"

definition half_mask :: "real nifti_file" where
  "half_mask = \<lparr>base = ''wm'', img = \<lparr>shape = [2], data = [1 / 2, 1], affine = [1, 1, 1]\<rparr>\<rparr>"

text \<open>
  Claim C7 at the region values 3 and 1 under the mask values 1/2 and 1. The merged
  volume is to be the product of region volume and mask, with every label of the
  intersection kept. The generator saves the product converted to integers instead. In
  every arithmetic that multiplies 3 by 1/2 to 3/2 and converts 3/2 to 1, as that of
  float arrays does, the one volume saved holds 1 at both voxels: at the first, where
  the product is 3/2, the label 3 is gone and the voxel carries the label of region 1.
\<close>

theorem merged_seed_converted:
  fixes np :: "real arithmetic"
  assumes "multiply np 3 (1 / 2) = 3 / 2" and "multiply np 1 1 = 1"
    and "astype_int np (3 / 2) = 1" and "astype_int np 1 = 1" and "astype_int np 3 = 3"
    and "nonzero np 3" and "nonzero np 1"
  shows "make_mrtrix_seeds_run_interface np ''/tmp''
       \<lparr>ROI_files = [three_roi], WM_file = half_mask\<rparr> =
     \<lparr>self = \<lparr>ROI_idx = [1, 3], base_name = ''roi''\<rparr>,
      saved =
        [(abspath ''/tmp'' (seeds_name ''roi''),
          \<lparr>shape = [2], data = [1, 1], affine = [1, 1, 1]\<rparr>)],
      raised = None\<rparr> \<and>
     map2 (multiply np) (data (img three_roi)) (data (img half_mask)) = [3 / 2, 1]"
proof -
  have l: "region_labels np (img three_roi) = [1, 3]"
    using assms by (simp add: region_labels_def three_roi_def np_unique_def)
  have "make_mrtrix_seeds_run_interface np ''/tmp''
      \<lparr>ROI_files = [three_roi], WM_file = half_mask\<rparr> =
     \<lparr>self = \<lparr>ROI_idx = region_labels np (img three_roi), base_name = base three_roi\<rparr>,
      saved = [(abspath ''/tmp'' (seeds_name (base three_roi)),
                \<lparr>shape = shape (img half_mask),
                 data = map (astype_int np)
                   (map2 (multiply np) (data (img three_roi)) (data (img half_mask))),
                 affine = affine (img three_roi)\<rparr>)],
      raised = None\<rparr>"
    by (rule make_mrtrix_seeds_single) (simp_all add: three_roi_def half_mask_def wellformed_def)
  then show ?thesis
    unfolding l using assms by (simp add: three_roi_def half_mask_def)
qed

theorem merged_seed_converted_witness:
  "multiply exact_arithmetic 3 (1 / 2) = 3 / 2 \<and> multiply exact_arithmetic 1 1 = 1 \<and>
   astype_int exact_arithmetic (3 / 2) = 1 \<and> astype_int exact_arithmetic 1 = 1 \<and>
   astype_int exact_arithmetic 3 = 3 \<and> nonzero exact_arithmetic 3 \<and>
   nonzero exact_arithmetic 1 \<and>
   map (data \<circ> snd) (saved (make_mrtrix_seeds_run_interface exact_arithmetic ''/tmp''
       \<lparr>ROI_files = [three_roi], WM_file = half_mask\<rparr>)) = [[1, 1]]"
proof -
  have a: "multiply exact_arithmetic 3 (1 / 2) = 3 / 2" "multiply exact_arithmetic 1 1 = 1"
    "astype_int exact_arithmetic (3 / 2) = 1" "astype_int exact_arithmetic 1 = 1"
    "astype_int exact_arithmetic 3 = 3" "nonzero exact_arithmetic 3"
    "nonzero exact_arithmetic 1"
    by (simp_all add: exact_arithmetic_def)
  from merged_seed_converted [OF a] a show ?thesis
    by simp
qed
section \<open>When the seed generators fail\<close>

definition compatible :: "'a volume \<Rightarrow> 'a nifti_file \<Rightarrow> bool" where
  "compatible WM_vol r \<longleftrightarrow> broadcast_shapes (shape (img r)) (shape WM_vol) \<noteq> None"

definition with_affine :: "real list \<Rightarrow> 'a nifti_file \<Rightarrow> 'a nifti_file" where
  "with_affine a f = f\<lparr>img := (img f)\<lparr>affine := a\<rparr>\<rparr>"

lemma np_multiply_cases:
  obtains (raises) "\<not> compatible WM_vol r" and "np_multiply np (img r) WM_vol = Inl ValueError"
  | (product) s p where "compatible WM_vol r" and "np_multiply np (img r) WM_vol = Inr (s, p)"
  by (cases "broadcast_shapes (shape (img r)) (shape WM_vol)")
    (auto simp: np_multiply_def compatible_def)

lemma same_grid_compatible: "same_grid WM_vol r \<Longrightarrow> compatible WM_vol r"
  by (simp add: same_grid_def compatible_def broadcast_shapes_same)

lemma make_seeds_loop_raised:
  "raised (make_seeds_loop np cwd WM_vol slf out rs) =
     (if \<forall>r \<in> set rs. compatible WM_vol r then None else Some ValueError)"
proof (induction rs arbitrary: slf out)
  case Nil
  show ?case by (simp add: make_seeds_loop.simps)
next
  case (Cons r rs)
  show ?case
  proof (cases rule: np_multiply_cases [where WM_vol = WM_vol and r = r and np = np])
    case raises
    then show ?thesis
      by (simp add: make_seeds_loop.simps Let_def)
  next
    case (product s p)
    then show ?thesis
      by (simp add: make_seeds_loop.simps Let_def Cons.IH)
  qed
qed

lemma make_seeds_loop_stops:
  assumes "\<not> compatible WM_vol r"
  shows "saved (make_seeds_loop np cwd WM_vol slf out (r # rest)) = out"
proof (cases rule: np_multiply_cases [where WM_vol = WM_vol and r = r and np = np])
  case raises
  then show ?thesis
    by (simp add: make_seeds_loop.simps Let_def)
next
  case (product s p)
  with assms show ?thesis by simp
qed

lemma make_seeds_loop_append:
  assumes "wellformed WM_vol" and "\<forall>r \<in> set rs. same_grid WM_vol r"
  shows "\<exists>slf'. make_seeds_loop np cwd WM_vol slf out (rs @ rest) =
     make_seeds_loop np cwd WM_vol slf' (out @ concat (map (region_seeds np cwd WM_vol) rs)) rest"
  using assms(2)
proof (induction rs arbitrary: slf out)
  case Nil
  show ?case by auto
next
  case (Cons r rs)
  from Cons.prems have g: "same_grid WM_vol r" and rest: "\<forall>r \<in> set rs. same_grid WM_vol r"
    by simp_all
  from Cons.IH [OF rest, of "\<lparr>ROI_idx = region_labels np (img r), base_name = base r\<rparr>"
      "out @ region_seeds np cwd WM_vol r"]
  show ?case
    by (simp add: make_seeds_step [OF assms(1) g])
qed

lemma make_seeds_loop_affine:
  "make_seeds_loop np cwd (WM_vol\<lparr>affine := a\<rparr>) slf out rs = make_seeds_loop np cwd WM_vol slf out rs"
proof (induction rs arbitrary: slf out)
  case Nil
  show ?case by (simp add: make_seeds_loop.simps)
next
  case (Cons r rs)
  show ?case
    by (simp add: make_seeds_loop.simps np_multiply_affine Cons.IH
        cong: sum.case_cong prod.case_cong)
qed

lemma make_mrtrix_seeds_loop_raised:
  "raised (make_mrtrix_seeds_loop np cwd WM_vol slf out rs) =
     (if \<forall>r \<in> set rs. compatible WM_vol r then None else Some ValueError)"
proof (induction rs arbitrary: slf out)
  case Nil
  show ?case by simp
next
  case (Cons r rs)
  show ?case
  proof (cases rule: np_multiply_cases [where WM_vol = WM_vol and r = r and np = np])
    case raises
    then show ?thesis
      by (simp add: Let_def)
  next
    case (product s p)
    then show ?thesis
      by (simp add: Let_def Cons.IH)
  qed
qed

lemma make_mrtrix_seeds_loop_affine:
  "make_mrtrix_seeds_loop np cwd (WM_vol\<lparr>affine := a\<rparr>) slf out rs =
   make_mrtrix_seeds_loop np cwd WM_vol slf out rs"
proof (induction rs arbitrary: slf out)
  case Nil
  show ?case by simp
next
  case (Cons r rs)
  show ?case
    by (simp add: np_multiply_affine Cons.IH cong: sum.case_cong prod.case_cong)
qed

definition coarse_roi :: "real nifti_file" where
  "coarse_roi =
     \<lparr>base = ''roi'', img = \<lparr>shape = [2, 2], data = [1, 2, 3, 2], affine = [2, 2, 2]\<rparr>\<rparr>"

definition fine_mask :: "real nifti_file" where
  "fine_mask =
     \<lparr>base = ''wm'', img = \<lparr>shape = [2, 2], data = [1, 0, 0, 1], affine = [1, 1, 1]\<rparr>\<rparr>"

text \<open>
  Claim C6 as stated fails: neither generator looks at an affine, so a region volume and
  a mask of one shape but of different voxel size are processed without any error, and
  seed volumes are saved.
\<close>

theorem grid_mismatch_counterexample:
  "affine (img coarse_roi) \<noteq> affine (img fine_mask) \<and>
   raised (make_seeds_run_interface exact_arithmetic ''/tmp''
     \<lparr>ROI_files = [coarse_roi], WM_file = fine_mask\<rparr>) = None \<and>
   length (saved (make_seeds_run_interface exact_arithmetic ''/tmp''
     \<lparr>ROI_files = [coarse_roi], WM_file = fine_mask\<rparr>)) = 3 \<and>
   raised (make_mrtrix_seeds_run_interface exact_arithmetic ''/tmp''
     \<lparr>ROI_files = [coarse_roi], WM_file = fine_mask\<rparr>) = None \<and>
   length (saved (make_mrtrix_seeds_run_interface exact_arithmetic ''/tmp''
     \<lparr>ROI_files = [coarse_roi], WM_file = fine_mask\<rparr>)) = 1"
proof -
  have g: "shape (img coarse_roi) = shape (img fine_mask)"
    and w: "wellformed (img coarse_roi)" "wellformed (img fine_mask)"
    by (simp_all add: coarse_roi_def fine_mask_def wellformed_def)
  have l: "region_labels exact_arithmetic (img coarse_roi) = [1, 2, 3]"
    by (simp add: region_labels_def coarse_roi_def np_unique_def exact_arithmetic_def)
  have "affine (img coarse_roi) \<noteq> affine (img fine_mask)"
    by (simp add: coarse_roi_def fine_mask_def)
  then show ?thesis
    by (simp add: make_seeds_single [OF g w] make_mrtrix_seeds_single [OF g w]
        region_seeds_def l)
qed

text \<open>
  Claim C6, amended. Neither generator checks the grid: the affine of the mask has no
  influence on a run, and the only failure is the \<^verbatim>\<open>ValueError\<close> of \<^verbatim>\<open>np.multiply\<close>,
  raised exactly when the shape of some region volume cannot be broadcast against the
  shape of the mask. In particular a run over region volumes of the mask's shape raises
  nothing. When the per-region run fails at a region volume, the seed volumes of the
  region volumes before it have been saved.
\<close>

theorem seed_generators_grid:
  fixes np :: "'a::linorder arithmetic" and inputs :: "'a make_seedsInputSpec" and cwd :: string
    and a :: "real list"
  defines "WM_vol \<equiv> img (WM_file inputs)"
  defines "moved \<equiv> inputs\<lparr>WM_file := with_affine a (WM_file inputs)\<rparr>"
  shows "raised (make_seeds_run_interface np cwd inputs) =
           (if \<forall>r \<in> set (ROI_files inputs). compatible WM_vol r then None
            else Some ValueError) \<and>
         raised (make_mrtrix_seeds_run_interface np cwd inputs) =
           (if \<forall>r \<in> set (ROI_files inputs). compatible WM_vol r then None
            else Some ValueError) \<and>
         ((\<forall>r \<in> set (ROI_files inputs). shape (img r) = shape WM_vol) \<longrightarrow>
            raised (make_seeds_run_interface np cwd inputs) = None \<and>
            raised (make_mrtrix_seeds_run_interface np cwd inputs) = None) \<and>
         make_seeds_run_interface np cwd moved = make_seeds_run_interface np cwd inputs \<and>
         make_mrtrix_seeds_run_interface np cwd moved =
           make_mrtrix_seeds_run_interface np cwd inputs \<and>
         (\<forall>rs bad rest.
            ROI_files inputs = rs @ bad # rest \<and> wellformed WM_vol \<and>
            (\<forall>r \<in> set rs. same_grid WM_vol r) \<and> \<not> compatible WM_vol bad \<longrightarrow>
              saved (make_seeds_run_interface np cwd inputs) =
                concat (map (region_seeds np cwd WM_vol) rs))"
proof -
  have r1: "raised (make_seeds_run_interface np cwd inputs) =
      (if \<forall>r \<in> set (ROI_files inputs). compatible WM_vol r then None else Some ValueError)"
    unfolding make_seeds_run_interface_def WM_vol_def by (rule make_seeds_loop_raised)
  have r2: "raised (make_mrtrix_seeds_run_interface np cwd inputs) =
      (if \<forall>r \<in> set (ROI_files inputs). compatible WM_vol r then None else Some ValueError)"
    unfolding make_mrtrix_seeds_run_interface_def WM_vol_def
    by (rule make_mrtrix_seeds_loop_raised)
  have same: "raised (make_seeds_run_interface np cwd inputs) = None \<and>
      raised (make_mrtrix_seeds_run_interface np cwd inputs) = None"
    if "\<forall>r \<in> set (ROI_files inputs). shape (img r) = shape WM_vol"
  proof -
    from that have "\<forall>r \<in> set (ROI_files inputs). compatible WM_vol r"
      by (simp add: compatible_def broadcast_shapes_same)
    then show ?thesis
      by (simp add: r1 r2)
  qed
  have m1: "make_seeds_run_interface np cwd moved = make_seeds_run_interface np cwd inputs"
    unfolding make_seeds_run_interface_def moved_def
    by (simp add: with_affine_def make_seeds_loop_affine)
  have m2: "make_mrtrix_seeds_run_interface np cwd moved =
      make_mrtrix_seeds_run_interface np cwd inputs"
    unfolding make_mrtrix_seeds_run_interface_def moved_def
    by (simp add: with_affine_def make_mrtrix_seeds_loop_affine)
  have part: "saved (make_seeds_run_interface np cwd inputs) =
      concat (map (region_seeds np cwd WM_vol) rs)"
    if h: "ROI_files inputs = rs @ bad # rest \<and> wellformed WM_vol \<and>
      (\<forall>r \<in> set rs. same_grid WM_vol r) \<and> \<not> compatible WM_vol bad"
    for rs bad rest
  proof -
    from h have wf: "wellformed WM_vol" and g: "\<forall>r \<in> set rs. same_grid WM_vol r"
      and b: "\<not> compatible WM_vol bad" and f: "ROI_files inputs = rs @ bad # rest"
      by simp_all
    from make_seeds_loop_append [OF wf g, of np cwd make_seeds_init "[]" "bad # rest"]
    obtain slf' where "make_seeds_loop np cwd WM_vol make_seeds_init [] (rs @ bad # rest) =
        make_seeds_loop np cwd WM_vol slf' (concat (map (region_seeds np cwd WM_vol) rs)) (bad # rest)"
      by auto
    then show ?thesis
      unfolding make_seeds_run_interface_def f WM_vol_def [symmetric]
      by (simp add: make_seeds_loop_stops [OF b])
  qed
  from r1 r2 same m1 m2 part show ?thesis by blast
qed

definition narrow_roi :: "real nifti_file" where
  "narrow_roi =
     \<lparr>base = ''narrow'', img = \<lparr>shape = [3], data = [1, 2, 3], affine = [1, 1, 1]\<rparr>\<rparr>"

theorem seed_generators_grid_witness:
  "raised (make_seeds_run_interface exact_arithmetic ''/tmp''
     \<lparr>ROI_files = [coarse_roi], WM_file = fine_mask\<rparr>) = None \<and>
   raised (make_seeds_run_interface exact_arithmetic ''/tmp''
     \<lparr>ROI_files = [coarse_roi, narrow_roi], WM_file = fine_mask\<rparr>) = Some ValueError \<and>
   raised (make_mrtrix_seeds_run_interface exact_arithmetic ''/tmp''
     \<lparr>ROI_files = [coarse_roi, narrow_roi], WM_file = fine_mask\<rparr>) = Some ValueError \<and>
   length (saved (make_seeds_run_interface exact_arithmetic ''/tmp''
     \<lparr>ROI_files = [coarse_roi, narrow_roi], WM_file = fine_mask\<rparr>)) = 3"
proof -
  have c: "compatible (img fine_mask) coarse_roi" "\<not> compatible (img fine_mask) narrow_roi"
    by (simp_all add: compatible_def coarse_roi_def fine_mask_def narrow_roi_def
        broadcast_shapes_def broadcast_dim_def)
  have w: "wellformed (img fine_mask)" "same_grid (img fine_mask) coarse_roi"
    by (simp_all add: same_grid_def coarse_roi_def fine_mask_def wellformed_def)
  have l: "length (region_seeds exact_arithmetic ''/tmp'' (img fine_mask) coarse_roi) = 3"
    by (simp add: region_seeds_def region_labels_def coarse_roi_def np_unique_def
        exact_arithmetic_def)
  note t1 = seed_generators_grid [of exact_arithmetic "''/tmp''"
      "\<lparr>ROI_files = [coarse_roi], WM_file = fine_mask\<rparr>" "[]"]
  note t2 = seed_generators_grid [of exact_arithmetic "''/tmp''"
      "\<lparr>ROI_files = [coarse_roi, narrow_roi], WM_file = fine_mask\<rparr>" "[]"]
  from t1 c have "raised (make_seeds_run_interface exact_arithmetic ''/tmp''
      \<lparr>ROI_files = [coarse_roi], WM_file = fine_mask\<rparr>) = None"
    by simp
  moreover from t2 c have "raised (make_seeds_run_interface exact_arithmetic ''/tmp''
      \<lparr>ROI_files = [coarse_roi, narrow_roi], WM_file = fine_mask\<rparr>) = Some ValueError"
    and "raised (make_mrtrix_seeds_run_interface exact_arithmetic ''/tmp''
      \<lparr>ROI_files = [coarse_roi, narrow_roi], WM_file = fine_mask\<rparr>) = Some ValueError"
    by simp_all
  moreover have "saved (make_seeds_run_interface exact_arithmetic ''/tmp''
      \<lparr>ROI_files = [coarse_roi, narrow_roi], WM_file = fine_mask\<rparr>) =
      concat (map (region_seeds exact_arithmetic ''/tmp'' (img fine_mask)) [coarse_roi])"
    using t2 [THEN conjunct2, THEN conjunct2, THEN conjunct2, THEN conjunct2, THEN conjunct2,
        rule_format, of "[coarse_roi]" narrow_roi "[]"] c w
    by simp
  ultimately show ?thesis
    by (simp add: l)
qed
section \<open>The orientation corrector\<close>

text \<open>
  \<^verbatim>\<open>match_orientations._run_interface\<close> reads a track file (its header and its fibres,
  each a triple of points, scalars and properties) and a reference image, of which it
  uses the data dimensions, the voxel dimensions and the axis codes of the affine
  (\<^verbatim>\<open>aff2axcodes\<close>). Coordinates are read as reals. Indexing the recorded voxel order
  beyond its length raises \<^verbatim>\<open>IndexError\<close>.
\<close>

type_synonym point = "real \<times> real \<times> real"

type_synonym ('s, 'p) fibre = "point list \<times> 's option \<times> 'p option"

record trk_header =
  dim :: "int \<times> int \<times> int"
  voxel_size :: point
  origin :: point
  voxel_order :: string

record ref_image =
  data_dims :: "int \<times> int \<times> int"
  vox_dims :: point
  axcodes :: "char \<times> char \<times> char"

definition match_orientations_run_interface ::
  "ref_image \<Rightarrow> trk_header \<Rightarrow> ('s, 'p) fibre list \<Rightarrow>
   py_error + (trk_header \<times> ('s, 'p) fibre list)" where
  "match_orientations_run_interface ref hdr fib =
     (case (data_dims ref, vox_dims ref, axcodes ref, origin hdr) of
        ((dx, dy, dz), (vx, vy, vz), (a0, a1, a2), (ox, oy, oz)) \<Rightarrow>
          if length (voxel_order hdr) \<le> 0 then Inl IndexError
          else let flip_x = (if a0 \<noteq> voxel_order hdr ! 0 then - 1 else 1) in
          if length (voxel_order hdr) \<le> 1 then Inl IndexError
          else let flip_y = (if a1 \<noteq> voxel_order hdr ! 1 then - 1 else 1) in
          if length (voxel_order hdr) \<le> 2 then Inl IndexError
          else let flip_z = (if a2 \<noteq> voxel_order hdr ! 2 then - 1 else 1);
                   trk_header = \<lparr>dim = (dx, dy, dz), voxel_size = (vx, vy, vz),
                     origin = (0, 0, 0), voxel_order = [a0, a1, a2]\<rparr>;
                   new_fib = map (\<lambda>(points, scalars, properties).
                     (map (\<lambda>(x, y, z).
                        (flip_x * (x - ox) + vx / 2,
                         flip_y * (y - oy) + vy / 2,
                         flip_z * (z - oz) + vz / 2)) points,
                      None, None)) fib
               in Inr (trk_header, new_fib))"

text \<open>The claim's words: the component of a triple at an axis, and the sign of an axis.\<close>

fun axis :: "'a \<times> 'a \<times> 'a \<Rightarrow> nat \<Rightarrow> 'a" where
  "axis (x, y, z) i = (if i = 0 then x else if i = 1 then y else z)"

definition axis_sign :: "char \<Rightarrow> char \<Rightarrow> real" where
  "axis_sign reference_code recorded_code = (if reference_code \<noteq> recorded_code then - 1 else 1)"

definition remap :: "ref_image \<Rightarrow> trk_header \<Rightarrow> point \<Rightarrow> nat \<Rightarrow> real" where
  "remap ref hdr p i =
     axis_sign (axis (axcodes ref) i) (voxel_order hdr ! i) * (axis p i - axis (origin hdr) i) +
     axis (vox_dims ref) i / 2"

lemma match_orientations_short_order:
  assumes "length (voxel_order hdr) < 3"
  shows "match_orientations_run_interface ref hdr fib = Inl IndexError"
  using assms
  by (simp add: match_orientations_run_interface_def Let_def split: prod.splits)

lemma axis_sel:
  "axis p 0 = fst p" "axis p (Suc 0) = fst (snd p)" "axis p 2 = snd (snd p)"
  by (cases p, simp)+

lemma match_orientations_result:
  assumes "3 \<le> length (voxel_order hdr)"
  shows "match_orientations_run_interface ref hdr fib =
     Inr (\<lparr>dim = data_dims ref, voxel_size = vox_dims ref, origin = (0, 0, 0),
           voxel_order = [axis (axcodes ref) 0, axis (axcodes ref) 1, axis (axcodes ref) 2]\<rparr>,
          map (\<lambda>f. (map (\<lambda>p. (remap ref hdr p 0, remap ref hdr p 1, remap ref hdr p 2)) (fst f),
                     None, None)) fib)"
proof -
  obtain dx dy dz where d: "data_dims ref = (dx, dy, dz)"
    by (cases "data_dims ref") auto
  obtain vx vy vz where v: "vox_dims ref = (vx, vy, vz)"
    by (cases "vox_dims ref") auto
  obtain a0 a1 a2 where a: "axcodes ref = (a0, a1, a2)"
    by (cases "axcodes ref") auto
  obtain ox oy oz where ob: "origin hdr = (ox, oy, oz)"
    by (cases "origin hdr") auto
  define flip_x :: real where "flip_x = (if a0 \<noteq> voxel_order hdr ! 0 then - 1 else 1)"
  define flip_y :: real where "flip_y = (if a1 \<noteq> voxel_order hdr ! 1 then - 1 else 1)"
  define flip_z :: real where "flip_z = (if a2 \<noteq> voxel_order hdr ! 2 then - 1 else 1)"
  have run: "match_orientations_run_interface ref hdr fib =
      Inr (\<lparr>dim = (dx, dy, dz), voxel_size = (vx, vy, vz), origin = (0, 0, 0),
             voxel_order = [a0, a1, a2]\<rparr>,
           map (\<lambda>(points, scalars, properties).
             (map (\<lambda>(x, y, z).
                (flip_x * (x - ox) + vx / 2,
                 flip_y * (y - oy) + vy / 2,
                 flip_z * (z - oz) + vz / 2)) points,
              None, None)) fib)"
    using assms
    apply (simp only: match_orientations_run_interface_def d v a ob prod.case Let_def)
    apply (simp only: flip_x_def [symmetric] flip_y_def [symmetric] flip_z_def [symmetric])
    apply auto
    done
  have point: "(case p of (x, y, z) \<Rightarrow>
        (flip_x * (x - ox) + vx / 2, flip_y * (y - oy) + vy / 2, flip_z * (z - oz) + vz / 2)) =
      (remap ref hdr p 0, remap ref hdr p 1, remap ref hdr p 2)" for p
    by (cases p)
      (simp add: remap_def axis_sign_def d v a ob flip_x_def flip_y_def flip_z_def)
  have fibre: "(case f of (points, scalars, properties) \<Rightarrow>
        (map (\<lambda>(x, y, z).
           (flip_x * (x - ox) + vx / 2,
            flip_y * (y - oy) + vy / 2,
            flip_z * (z - oz) + vz / 2)) points,
         None, None)) =
      (map (\<lambda>p. (remap ref hdr p 0, remap ref hdr p 1, remap ref hdr p 2)) (fst f),
       None, None)" for f :: "('s, 'p) fibre"
  proof (cases f)
    case (fields points scalars properties)
    have "map (\<lambda>(x, y, z).
           (flip_x * (x - ox) + vx / 2,
            flip_y * (y - oy) + vy / 2,
            flip_z * (z - oz) + vz / 2)) points =
        map (\<lambda>p. (remap ref hdr p 0, remap ref hdr p 1, remap ref hdr p 2)) points"
      by (rule map_cong [OF refl]) (simp only: point)
    then show ?thesis
      unfolding fields by simp
  qed
  have fibres: "map (\<lambda>(points, scalars, properties).
             (map (\<lambda>(x, y, z).
                (flip_x * (x - ox) + vx / 2,
                 flip_y * (y - oy) + vy / 2,
                 flip_z * (z - oz) + vz / 2)) points,
              None, None)) fib =
      map (\<lambda>f. (map (\<lambda>p. (remap ref hdr p 0, remap ref hdr p 1, remap ref hdr p 2)) (fst f),
                     None, None)) fib"
    by (rule map_cong [OF refl]) (simp only: fibre)
  show ?thesis
    unfolding run fibres by (simp add: d v a)
qed

text \<open>
  Claim C5. When the recorded voxel order has its three characters, the corrector
  returns a header tagged with the three reference axis codes in a row, and as many
  fibres as it was given; each point of each fibre is remapped, axis by axis, to
  \<open>sign\<^sub>i * (p\<^sub>i - origin\<^sub>i) + voxelSize\<^sub>i / 2\<close>, where \<open>origin\<close> is the origin recorded in
  the source header and \<open>sign\<^sub>i\<close> is -1 when the reference code at axis \<open>i\<close> differs from
  the recorded voxel-order character at \<open>i\<close> and +1 otherwise.
\<close>

theorem orientation_corrector:
  fixes fib :: "('s, 'p) fibre list"
  assumes "3 \<le> length (voxel_order hdr)"
  shows "\<exists>h out.
     match_orientations_run_interface ref hdr fib = Inr (h, out) \<and>
     voxel_order h = [axis (axcodes ref) 0, axis (axcodes ref) 1, axis (axcodes ref) 2] \<and>
     dim h = data_dims ref \<and> voxel_size h = vox_dims ref \<and>
     length out = length fib \<and>
     (\<forall>s < length fib.
        length (fst (out ! s)) = length (fst (fib ! s)) \<and>
        (\<forall>k < length (fst (fib ! s)). \<forall>i < 3.
           axis (fst (out ! s) ! k) i =
             axis_sign (axis (axcodes ref) i) (voxel_order hdr ! i) *
               (axis (fst (fib ! s) ! k) i - axis (origin hdr) i) +
             axis (vox_dims ref) i / 2))"
proof -
  let ?h = "\<lparr>dim = data_dims ref, voxel_size = vox_dims ref, origin = (0, 0, 0),
     voxel_order = [axis (axcodes ref) 0, axis (axcodes ref) 1, axis (axcodes ref) 2]\<rparr>"
  let ?out = "map (\<lambda>f. (map (\<lambda>p. (remap ref hdr p 0, remap ref hdr p 1, remap ref hdr p 2))
     (fst f), None :: 's option, None :: 'p option)) fib"
  have r: "match_orientations_run_interface ref hdr fib = Inr (?h, ?out)"
    using assms by (rule match_orientations_result)
  have pt: "axis (fst (?out ! s) ! k) i =
      axis_sign (axis (axcodes ref) i) (voxel_order hdr ! i) *
        (axis (fst (fib ! s) ! k) i - axis (origin hdr) i) +
      axis (vox_dims ref) i / 2"
    if "s < length fib" and "k < length (fst (fib ! s))" and "i < 3" for s k i
  proof -
    from that(3) consider "i = 0" | "i = 1" | "i = 2" by linarith
    then show ?thesis
    proof cases
      case 1
      with that(1,2) show ?thesis by (simp add: remap_def)
    next
      case 2
      with that(1,2) show ?thesis by (simp add: remap_def)
    next
      case 3
      with that(1,2) show ?thesis by (simp add: remap_def)
    qed
  qed
  have ln: "length (fst (?out ! s)) = length (fst (fib ! s))" if "s < length fib" for s
    using that by simp
  have hd: "voxel_order ?h = [axis (axcodes ref) 0, axis (axcodes ref) 1, axis (axcodes ref) 2]"
    "dim ?h = data_dims ref" "voxel_size ?h = vox_dims ref" "length ?out = length fib"
    by simp_all
  show ?thesis
    by (intro exI [of _ ?h] exI [of _ ?out] conjI allI impI r hd pt ln)
qed

definition las_image :: ref_image where
  "las_image = \<lparr>data_dims = (96, 96, 60), vox_dims = (2, 2, 3),
     axcodes = (CHR ''L'', CHR ''A'', CHR ''S'')\<rparr>"

definition lps_header :: trk_header where
  "lps_header = \<lparr>dim = (96, 96, 60), voxel_size = (2, 2, 3), origin = (1, 1, 1),
     voxel_order = ''LPS''\<rparr>"

definition one_fibre :: "(unit, unit) fibre list" where
  "one_fibre = [([(2, 3, 4)], None, None)]"

theorem orientation_corrector_witness:
  "3 \<le> length (voxel_order lps_header) \<and>
   match_orientations_run_interface las_image lps_header one_fibre =
     Inr (\<lparr>dim = (96, 96, 60), voxel_size = (2, 2, 3), origin = (0, 0, 0),
           voxel_order = ''LAS''\<rparr>,
          [([(2, - 1, 9 / 2)], None, None)])"
proof -
  have l: "3 \<le> length (voxel_order lps_header)"
    by (simp add: lps_header_def)
  from orientation_corrector [OF l, of las_image one_fibre]
  obtain h out where r: "match_orientations_run_interface las_image lps_header one_fibre =
      Inr (h, out)"
    and o: "voxel_order h = [axis (axcodes las_image) 0, axis (axcodes las_image) 1,
      axis (axcodes las_image) 2]"
    by blast
  have "match_orientations_run_interface las_image lps_header one_fibre =
     Inr (\<lparr>dim = (96, 96, 60), voxel_size = (2, 2, 3), origin = (0, 0, 0),
           voxel_order = ''LAS''\<rparr>,
          [([(2, - 1, 9 / 2)], None, None)])"
    by (simp add: match_orientations_run_interface_def las_image_def lps_header_def
        one_fibre_def Let_def)
  with l r show ?thesis by simp
qed

end
